theory Spec2Isabelle
  imports Complex_Main "HOL-Library.Word" "HOL-Library.Signed_Division"
begin

section \<open>Solvned: a shallow embedding of the stepping, event and storage engine\<close>

text \<open>
  The Go package computes with \<^verbatim>\<open>float64\<close>.  The embedding reads every
  \<^verbatim>\<open>float64\<close> as a \<^typ>\<open>real\<close>: rounding, infinities and NaN are
  abstracted away, and \<^verbatim>\<open>math.Sqrt\<close>, \<^verbatim>\<open>math.Pow\<close>,
  \<^verbatim>\<open>math.Abs\<close> and \<^verbatim>\<open>math.Ldexp(1, n)\<close> are \<^const>\<open>sqrt\<close>,
  \<^const>\<open>powr\<close>, \<^const>\<open>abs\<close> and \<open>2 ^ n\<close>.  The properties below are about
  control flow, indices and the algebraic shape of the formulas; the concrete inputs are
  small, and what is proved at them does not hinge on rounding.  A quotient with
  denominator zero (an infinity or NaN in Go, \<open>0\<close> in HOL) is outside the model: no
  concrete input below evaluates one.  A slice is a list (\<^verbatim>\<open>nil\<close> is the empty list); an index outside a
  slice and a call through a \<^verbatim>\<open>nil\<close> function value are run-time panics of Go and
  are results of the model.  A loop without a bound is a partial function whose value
  \<^const>\<open>None\<close> means that the call does not return.
\<close>

subsection \<open>Core data types (common.go)\<close>

datatype error = IndexOutOfRange | NilDereference | Panic string

record Point =
  Time :: real
  Value :: "real list"

record IVP =
  Derivative :: "Point \<Rightarrow> real list \<times> bool"
  Start :: Point

text \<open>\<^verbatim>\<open>Clone\<close> copies the slice; on immutable lists a copy is the value itself.\<close>

definition Point_Clone :: "Point \<Rightarrow> Point" where
  "Point_Clone p = \<lparr>Time = Time p, Value = Value p\<rparr>"

definition IVP_Clone :: "IVP \<Rightarrow> IVP" where
  "IVP_Clone ivp = \<lparr>Derivative = Derivative ivp, Start = Point_Clone (Start ivp)\<rparr>"

subsection \<open>Step-size update (AdaptiveUpdateStep)\<close>

text \<open>
  The definition agrees with the Go function where the error is not zero, the order is
  not zero and \<open>tol / err\<close> (hence the ratio \<open>tol * |step| / (2 * err)\<close>) is not negative
  unless the order is one: there no quotient has denominator zero and \<^verbatim>\<open>math.Pow\<close> has a non-negative
  base.  Outside (where Go computes with an infinity or NaN) nothing is claimed of it.
\<close>

definition AdaptiveUpdateStep :: "real \<Rightarrow> real \<Rightarrow> real \<Rightarrow> real \<Rightarrow> 8 word \<Rightarrow> real" where
  "AdaptiveUpdateStep step tol err mx order =
    (let adjust = tol * \<bar>step\<bar> / (2 * err);
         q = (if order = 1 then adjust else adjust powr (1 / real (unat order)));
         q = (if q < 0.1 then 0.1 else if q > 4 then 4 else q);
         newStep = q * step
     in if \<bar>newStep\<bar> > mx then (if newStep > 0 then mx else - mx) else newStep)"

text \<open>
  The update rule in the words of the specification: the ratio, raised to \<open>1/order\<close>
  unless the order is one, clamped to \<open>[0.1, 4]\<close>; the new step saturated in magnitude,
  keeping its sign.
\<close>

definition spec_clamp :: "real \<Rightarrow> real \<Rightarrow> real \<Rightarrow> real" where
  "spec_clamp lo hi x = max lo (min hi x)"

definition spec_q :: "real \<Rightarrow> real \<Rightarrow> real \<Rightarrow> 8 word \<Rightarrow> real" where
  "spec_q step tol err order =
    spec_clamp 0.1 4
      (if order = 1 then tol * \<bar>step\<bar> / (2 * err)
       else (tol * \<bar>step\<bar> / (2 * err)) powr (1 / real (unat order)))"

definition spec_saturate :: "real \<Rightarrow> real \<Rightarrow> real" where
  "spec_saturate mx x = sgn x * min \<bar>x\<bar> mx"

subsection \<open>Slices, index checks and counted loops\<close>

text \<open>
  \<open>ebind\<close> sequences two computations that may panic.  \<open>idx xs i\<close> is the read
  \<^verbatim>\<open>xs[i]\<close>, \<open>for_each is body s\<close> runs \<open>body\<close> for the indices \<open>is\<close> in order and
  stops at the first panic, and \<open>upd_each n f xs\<close> is the loop
  \<^verbatim>\<open>for i := 0; i < n; i++ { xs[i] = f(i, xs[i]) }\<close>.
\<close>

definition ebind :: "error + 'a \<Rightarrow> ('a \<Rightarrow> error + 'b) \<Rightarrow> error + 'b" where
  "ebind m f = (case m of Inl e \<Rightarrow> Inl e | Inr x \<Rightarrow> f x)"

definition idx :: "'a list \<Rightarrow> nat \<Rightarrow> error + 'a" where
  "idx xs i = (if i < length xs then Inr (xs ! i) else Inl IndexOutOfRange)"

fun for_each :: "nat list \<Rightarrow> (nat \<Rightarrow> 's \<Rightarrow> error + 's) \<Rightarrow> 's \<Rightarrow> error + 's" where
  "for_each [] body s = Inr s"
| "for_each (i # is) body s = ebind (body i s) (for_each is body)"

definition upd_each :: "nat \<Rightarrow> (nat \<Rightarrow> real \<Rightarrow> error + real) \<Rightarrow> real list \<Rightarrow> error + real list" where
  "upd_each n f xs =
     for_each [0..<n] (\<lambda>i ys. ebind (idx ys i) (\<lambda>y. ebind (f i y) (\<lambda>z. Inr (ys[i := z])))) xs"

subsection \<open>Fixed-step update functions (Euler, modified Euler, RK4)\<close>

text \<open>
  A step function receives \<^verbatim>\<open>*IVP\<close>, overwrites \<^verbatim>\<open>Start.Value\<close> and returns a
  flag; the model returns the problem after the call together with the flag.
\<close>

type_synonym step_method = "IVP \<Rightarrow> real \<Rightarrow> error + (IVP \<times> bool)"

definition set_Value :: "IVP \<Rightarrow> real list \<Rightarrow> IVP" where
  "set_Value ivp v = ivp\<lparr>Start := (Start ivp)\<lparr>Value := v\<rparr>\<rparr>"

definition add_Time :: "IVP \<Rightarrow> real \<Rightarrow> IVP" where
  "add_Time ivp h = ivp\<lparr>Start := (Start ivp)\<lparr>Time := Time (Start ivp) + h\<rparr>\<rparr>"

definition eulerStep :: step_method where
  "eulerStep ivp h =
     (case Derivative ivp (Start ivp) of (deriv, ok) \<Rightarrow>
        if \<not> ok then Inr (ivp, False)
        else ebind (upd_each (length deriv)
                      (\<lambda>i x. ebind (idx deriv i) (\<lambda>d. Inr (x + h * d))) (Value (Start ivp)))
               (\<lambda>v. Inr (set_Value ivp v, True)))"

definition modEulerStep :: step_method where
  "modEulerStep ivp h =
     (case Derivative ivp (Start ivp) of (deriv, ok) \<Rightarrow>
        if \<not> ok then Inr (ivp, False)
        else
          ebind (upd_each (length deriv)
                   (\<lambda>i x. ebind (idx deriv i) (\<lambda>v. Inr (x + h * v))) (Value (Start ivp)))
            (\<lambda>pv. let point = \<lparr>Time = Time (Start ivp) + h, Value = pv\<rparr> in
               case Derivative ivp point of (deriv2, ok2) \<Rightarrow>
                 ebind (upd_each (length deriv)
                          (\<lambda>i x. ebind (idx deriv i) (\<lambda>d. ebind (idx deriv2 i)
                             (\<lambda>d2. Inr (x + h * (d + d2) / 2))))
                          (Value (Start ivp)))
                   (\<lambda>v. Inr (set_Value ivp v, True))))"

text \<open>
  \<^verbatim>\<open>RK4Step\<close> scales each stage in place by \<open>h\<close> and returns the slice \<^verbatim>\<open>k1\<close>, that
  is \<open>h\<close> times the derivative at the start, with the flag.
\<close>

definition scale_by :: "real \<Rightarrow> real list \<Rightarrow> real list" where
  "scale_by h k = map (\<lambda>v. v * h) k"

definition RK4Step :: "IVP \<Rightarrow> real \<Rightarrow> error + (IVP \<times> real list \<times> bool)" where
  "RK4Step ivp h =
     (case Derivative ivp (Start ivp) of (k1r, ok1) \<Rightarrow>
      if \<not> ok1 then Inr (ivp, [], False) else
      let k1 = scale_by h k1r in
      ebind (upd_each (length k1) (\<lambda>i x. ebind (idx k1 i) (\<lambda>v. Inr (x + v / 2)))
               (Value (Start ivp)))
      (\<lambda>v1. case Derivative ivp \<lparr>Time = Time (Start ivp) + h / 2, Value = v1\<rparr> of (k2r, ok2) \<Rightarrow>
      if \<not> ok2 then Inr (ivp, [], False) else
      let k2 = scale_by h k2r in
      ebind (upd_each (length k2) (\<lambda>i x. ebind (idx k2 i) (\<lambda>v. Inr (x + v / 2)))
               (Value (Start ivp)))
      (\<lambda>v2. case Derivative ivp \<lparr>Time = Time (Start ivp) + h / 2, Value = v2\<rparr> of (k3r, ok3) \<Rightarrow>
      if \<not> ok3 then Inr (ivp, [], False) else
      let k3 = scale_by h k3r in
      ebind (upd_each (length k3) (\<lambda>i x. ebind (idx k3 i) (\<lambda>v. Inr (x + v)))
               (Value (Start ivp)))
      (\<lambda>v3. case Derivative ivp \<lparr>Time = Time (Start ivp) + h, Value = v3\<rparr> of (k4r, ok4) \<Rightarrow>
      if \<not> ok4 then Inr (ivp, [], False) else
      let k4 = scale_by h k4r in
      ebind (upd_each (length (Value (Start ivp)))
               (\<lambda>i x. ebind (idx k1 i) (\<lambda>a. ebind (idx k2 i) (\<lambda>b. ebind (idx k3 i)
                  (\<lambda>c. ebind (idx k4 i) (\<lambda>d. Inr (x + (a + 2 * b + 2 * c + d) / 6))))))
               (Value (Start ivp)))
      (\<lambda>v. Inr (set_Value ivp v, k1, True))))))"

definition rk4Step :: step_method where
  "rk4Step ivp h = ebind (RK4Step ivp h) (\<lambda>(ivp', _, ok). Inr (ivp', ok))"

subsection \<open>Steppers and methods\<close>

text \<open>
  A \<^verbatim>\<open>Stepper\<close> is an interface value: some private state and its \<^verbatim>\<open>Next\<close>.
  A call of \<^verbatim>\<open>Next\<close> may not return (\<^const>\<open>None\<close>), may panic, may report
  exhaustion (no point) or may return a point; in each returning case the stepper has a
  new state.
\<close>

type_synonym 's next_fn = "'s \<Rightarrow> (error + (Point option \<times> 's)) option"

record 's Stepper =
  st :: 's
  nextf :: "'s next_fn"

definition Stepper_Next :: "'s Stepper \<Rightarrow> (error + (Point option \<times> 's Stepper)) option" where
  "Stepper_Next s =
     map_option (map_sum id (\<lambda>(p, s'). (p, s\<lparr>st := s'\<rparr>))) (nextf s (st s))"

record 's Method =
  Forward :: "IVP \<Rightarrow> 's Stepper"
  Backward :: "IVP \<Rightarrow> 's Stepper"

record fixedStepper =
  fs_state :: IVP
  fs_step :: real
  fs_method :: step_method

definition fixedStepper_NextStep :: "fixedStepper \<Rightarrow> real \<Rightarrow> error + (Point option \<times> fixedStepper)" where
  "fixedStepper_NextStep s h =
     ebind (fs_method s (fs_state s) h) (\<lambda>(ivp', ok).
       if \<not> ok then Inr (None, s\<lparr>fs_state := ivp'\<rparr>)
       else let ivp'' = add_Time ivp' h in Inr (Some (Start ivp''), s\<lparr>fs_state := ivp''\<rparr>))"

definition fixedStepper_Next :: "fixedStepper next_fn" where
  "fixedStepper_Next s = Some (fixedStepper_NextStep s (fs_step s))"

record FixedStepMethod =
  fm_Step :: real
  fm_Method :: step_method

definition FixedStepMethod_Forward :: "FixedStepMethod \<Rightarrow> IVP \<Rightarrow> fixedStepper Stepper" where
  "FixedStepMethod_Forward m ivp =
     \<lparr>st = \<lparr>fs_state = IVP_Clone ivp, fs_step = fm_Step m, fs_method = fm_Method m\<rparr>,
      nextf = fixedStepper_Next\<rparr>"

definition FixedStepMethod_Backward :: "FixedStepMethod \<Rightarrow> IVP \<Rightarrow> fixedStepper Stepper" where
  "FixedStepMethod_Backward m ivp =
     \<lparr>st = \<lparr>fs_state = IVP_Clone ivp, fs_step = - fm_Step m, fs_method = fm_Method m\<rparr>,
      nextf = fixedStepper_Next\<rparr>"

definition FixedStepMethod_Method :: "FixedStepMethod \<Rightarrow> fixedStepper Method" where
  "FixedStepMethod_Method m =
     \<lparr>Forward = FixedStepMethod_Forward m, Backward = FixedStepMethod_Backward m\<rparr>"

definition Euler :: "real \<Rightarrow> fixedStepper Method" where
  "Euler step = FixedStepMethod_Method \<lparr>fm_Step = step, fm_Method = eulerStep\<rparr>"

definition ModifiedEuler :: "real \<Rightarrow> fixedStepper Method" where
  "ModifiedEuler step = FixedStepMethod_Method \<lparr>fm_Step = step, fm_Method = modEulerStep\<rparr>"

definition RK4 :: "real \<Rightarrow> fixedStepper Method" where
  "RK4 step = FixedStepMethod_Method \<lparr>fm_Step = step, fm_Method = rk4Step\<rparr>"

subsection \<open>Interpolators\<close>

text \<open>
  Where both points have the same time the Go code divides by zero; the properties below
  only interpolate between points of different times.
\<close>

datatype Interpolator = LinearInterpolator | HermiteInterpolator "Point \<Rightarrow> real list \<times> bool"

definition Linear_FindValue :: "Point \<Rightarrow> Point \<Rightarrow> real \<Rightarrow> error + real list" where
  "Linear_FindValue p1 p2 t =
     (let size = length (Value p1);
          ratio = (t - Time p1) / (Time p2 - Time p1)
      in upd_each size
           (\<lambda>i _. ebind (idx (Value p1) i) (\<lambda>a. ebind (idx (Value p2) i)
              (\<lambda>b. Inr (a * (1 - ratio) + b * ratio))))
           (replicate size 0))"

definition Hermite_FindValue ::
  "(Point \<Rightarrow> real list \<times> bool) \<Rightarrow> Point \<Rightarrow> Point \<Rightarrow> real \<Rightarrow> error + real list" where
  "Hermite_FindValue F p1 p2 t =
     (let diff = Time p2 - Time p1; off = t - Time p1 in
      case F p1 of (d01, ok1) \<Rightarrow>
      if \<not> ok1 then Linear_FindValue p1 p2 t else
      case F p2 of (d23, ok2) \<Rightarrow>
      if \<not> ok2 then Linear_FindValue p1 p2 t else
      let n = length d01 in
      ebind (upd_each n (\<lambda>i _. ebind (idx (Value p2) i) (\<lambda>b. ebind (idx (Value p1) i)
               (\<lambda>a. Inr ((b - a) / diff)))) (replicate n 0))
      (\<lambda>d12. ebind (upd_each n (\<lambda>i _. ebind (idx d12 i) (\<lambda>a. ebind (idx d01 i)
               (\<lambda>b. Inr ((a - b) / diff)))) (replicate n 0))
      (\<lambda>d02. ebind (upd_each n (\<lambda>i _. ebind (idx d23 i) (\<lambda>a. ebind (idx d12 i)
               (\<lambda>b. Inr ((a - b) / diff)))) (replicate n 0))
      (\<lambda>d13. ebind (upd_each n (\<lambda>i _. ebind (idx d13 i) (\<lambda>a. ebind (idx d02 i)
               (\<lambda>b. Inr ((a - b) / diff)))) (replicate n 0))
      (\<lambda>d03. upd_each n (\<lambda>i _. ebind (idx (Value p1) i) (\<lambda>x. ebind (idx d01 i)
               (\<lambda>a. ebind (idx d02 i) (\<lambda>b. ebind (idx d03 i)
               (\<lambda>c. Inr (x + off * (a + off * (b + (off - diff) * c))))))))
             (replicate n 0))))))"

fun FindValue :: "Interpolator \<Rightarrow> Point \<Rightarrow> Point \<Rightarrow> real \<Rightarrow> error + real list" where
  "FindValue LinearInterpolator p1 p2 t = Linear_FindValue p1 p2 t"
| "FindValue (HermiteInterpolator F) p1 p2 t = Hermite_FindValue F p1 p2 t"

subsection \<open>Dense solutions (dense.go)\<close>

text \<open>
  Indices are Go \<^verbatim>\<open>int\<close>s, modelled as unbounded integers (they stay below the
  length of a slice); \<^verbatim>\<open>/\<close> on them truncates towards zero.
\<close>

definition idxi :: "'a list \<Rightarrow> int \<Rightarrow> error + 'a" where
  "idxi xs i = (if 0 \<le> i \<and> i < int (length xs) then Inr (xs ! nat i) else Inl IndexOutOfRange)"

record DenseSolution =
  points :: "Point list"
  interp :: Interpolator

definition DenseSolution_Start :: "DenseSolution \<Rightarrow> error + real" where
  "DenseSolution_Start d = ebind (idxi (points d) 0) (\<lambda>p. Inr (Time p))"

definition DenseSolution_End :: "DenseSolution \<Rightarrow> error + real" where
  "DenseSolution_End d = ebind (idxi (points d) (int (length (points d)) - 1)) (\<lambda>p. Inr (Time p))"

partial_function (option) search ::
  "DenseSolution \<Rightarrow> real \<Rightarrow> int \<Rightarrow> int \<Rightarrow> (error + real list) option" where
  "search d time mn mx =
     (if mn = mx then Some (ebind (idxi (points d) mn) (\<lambda>p. Inr (Value p)))
      else if mx - mn = 1 then
        Some (ebind (idxi (points d) mn) (\<lambda>pmin.
          if time = Time pmin then Inr (Value (Point_Clone pmin))
          else ebind (idxi (points d) mx) (\<lambda>pmax.
            if time = Time pmax then Inr (Value (Point_Clone pmax))
            else FindValue (interp d) pmin pmax time)))
      else
        let mid = (mx - mn) sdiv 2 in
        case idxi (points d) mid of
          Inl e \<Rightarrow> Some (Inl e)
        | Inr pmid \<Rightarrow>
            if time = Time pmid then Some (Inr (Value pmid))
            else if time > Time pmid then search d time mid mx
            else search d time mn mid)"

definition DenseSolution_Get :: "DenseSolution \<Rightarrow> real \<Rightarrow> (error + (real list \<times> bool)) option" where
  "DenseSolution_Get d time =
     (case DenseSolution_Start d of
        Inl e \<Rightarrow> Some (Inl e)
      | Inr s \<Rightarrow>
          if time < s then Some (ebind (idxi (points d) 0) (\<lambda>p. Inr (Value p, False)))
          else
            (case DenseSolution_End d of
               Inl e \<Rightarrow> Some (Inl e)
             | Inr e \<Rightarrow>
                 if time > e
                 then Some (ebind (idxi (points d) (int (length (points d)) - 1))
                              (\<lambda>p. Inr (Value p, False)))
                 else Option.bind (search d time 0 (int (length (points d)) - 1))
                        (\<lambda>r. Some (ebind r (\<lambda>v. Inr (v, True))))))"

text \<open>
  \<^verbatim>\<open>DenseSolve\<close>.  Where the Go code returns the zero \<^verbatim>\<open>DenseSolution{}\<close> with
  the flag false, a result documented as meaningless, the model returns the solution
  without points.  The two loops that run a stepper until its point passes a
  boundary, remembering the point before (\<open>skip_loop\<close>, with the loop condition on the
  current time as a parameter), the two loops that append every new point until the
  boundary is passed or the stepper is exhausted (\<open>collect_loop\<close>), and the reversal
  loop \<^verbatim>\<open>for i := 0; i < size/2; i++ { points[i], points[size-i] = points[size-i], points[i] }\<close>.
\<close>

partial_function (option) skip_loop ::
  "(real \<Rightarrow> bool) \<Rightarrow> 's Stepper \<Rightarrow> Point \<Rightarrow> Point
     \<Rightarrow> (error + (Point \<times> Point \<times> 's Stepper) option) option" where
  "skip_loop cond s prev current =
     (if cond (Time current) then
        Option.bind (Stepper_Next s) (\<lambda>r.
          case r of
            Inl e \<Rightarrow> Some (Inl e)
          | Inr (None, s') \<Rightarrow> Some (Inr None)
          | Inr (Some p, s') \<Rightarrow> skip_loop cond s' (Point_Clone current) p)
      else Some (Inr (Some (prev, current, s))))"

partial_function (option) collect_loop ::
  "(real \<Rightarrow> bool) \<Rightarrow> 's Stepper \<Rightarrow> Point \<Rightarrow> Point list
     \<Rightarrow> (error + (Point list \<times> 's Stepper)) option" where
  "collect_loop cond s current pts =
     (if cond (Time current) then
        Option.bind (Stepper_Next s) (\<lambda>r.
          case r of
            Inl e \<Rightarrow> Some (Inl e)
          | Inr (None, s') \<Rightarrow> Some (Inr (pts, s'))
          | Inr (Some p, s') \<Rightarrow> collect_loop cond s' p (pts @ [Point_Clone p]))
      else Some (Inr (pts, s)))"

definition swap_at :: "'a list \<Rightarrow> nat \<Rightarrow> nat \<Rightarrow> error + 'a list" where
  "swap_at xs i j =
     ebind (idx xs j) (\<lambda>b. ebind (idx xs i) (\<lambda>a. Inr (xs[i := b, j := a])))"

definition reverse_loop :: "'a list \<Rightarrow> error + 'a list" where
  "reverse_loop xs =
     (let size = length xs in for_each [0..<size div 2] (\<lambda>i ys. swap_at ys i (size - i)) xs)"

definition DenseSolve ::
  "'s Method \<Rightarrow> IVP \<Rightarrow> real \<Rightarrow> real \<Rightarrow> Interpolator
     \<Rightarrow> (error + (DenseSolution \<times> bool)) option" where
  "DenseSolve method ivp start end ip =
     (let forward = Forward method ivp;
          backward = Backward method ivp;
          failed = Some (Inr (\<lparr>points = [], interp = LinearInterpolator\<rparr>, False))
      in
      Option.bind
        (if end < Time (Start ivp) then
           Option.bind (skip_loop (\<lambda>t. end < t) backward \<lparr>Time = 0, Value = []\<rparr> (Start ivp))
             (\<lambda>r. Some (map_sum id (map_option (\<lambda>(prev, current, b).
                      ((if Time current < end then [prev] else []) @ [Point_Clone current],
                       prev, current, b, False))) r))
         else Some (Inr (Some ([], \<lparr>Time = 0, Value = []\<rparr>, Start ivp, backward, True))))
        (\<lambda>r1. case r1 of
           Inl e \<Rightarrow> Some (Inl e)
         | Inr None \<Rightarrow> failed
         | Inr (Some (pts1, prev1, current1, backward1, pending1)) \<Rightarrow>
      Option.bind (collect_loop (\<lambda>t. start < t) backward1 current1 pts1)
        (\<lambda>r2. case r2 of
           Inl e \<Rightarrow> Some (Inl e)
         | Inr (pts2, backward2) \<Rightarrow>
      (case reverse_loop pts2 of
           Inl e \<Rightarrow> Some (Inl e)
         | Inr pts3 \<Rightarrow>
      Option.bind
        (if start > Time (Start ivp) then
           Option.bind (skip_loop (\<lambda>t. start > t) forward prev1 (Start ivp))
             (\<lambda>r. Some (map_sum id (map_option (\<lambda>(prev, current, f).
                      (pts3 @ (if Time current > start then [prev] else []) @ [Point_Clone current],
                       current, f, False))) r))
         else Some (Inr (Some (pts3, Start ivp, forward, pending1))))
        (\<lambda>r3. case r3 of
           Inl e \<Rightarrow> Some (Inl e)
         | Inr None \<Rightarrow> failed
         | Inr (Some (pts4, current4, forward4, pending4)) \<Rightarrow>
      Option.bind
        (collect_loop (\<lambda>t. end > t) forward4 current4
           (if pending4 then pts4 @ [Start ivp] else pts4))
        (\<lambda>r5. case r5 of
           Inl e \<Rightarrow> Some (Inl e)
         | Inr (pts5, forward5) \<Rightarrow>
             Some (Inr (\<lparr>points = pts5, interp = ip\<rparr>, True))))))))"

text \<open>A dense solution with four stored points, at the times \<open>0, 1, 2, 3\<close>.\<close>

definition dense4 :: DenseSolution where
  "dense4 = \<lparr>points = [\<lparr>Time = 0, Value = [0]\<rparr>, \<lparr>Time = 1, Value = [1]\<rparr>,
                        \<lparr>Time = 2, Value = [2]\<rparr>, \<lparr>Time = 3, Value = [3]\<rparr>],
             interp = LinearInterpolator\<rparr>"

subsection \<open>Multistep formulas and the Adams-Bashford stepper (mstep)\<close>

record Step =
  Step_Value :: "real list"
  Step_Deriv :: "real list"

text \<open>
  \<^verbatim>\<open>copy(dst, src)\<close> overwrites the first \<open>min (len dst) (len src)\<close> elements of \<open>dst\<close>.
\<close>

definition go_copy :: "'a list \<Rightarrow> 'a list \<Rightarrow> 'a list" where
  "go_copy dst src = take (length dst) src @ drop (length src) dst"

definition Implicit :: "Step list \<Rightarrow> real list \<Rightarrow> real list \<Rightarrow> real \<Rightarrow> error + real list" where
  "Implicit steps a b step =
     (if length steps = 0 then Inl (Panic ''There must be at least one step!'')
      else if length steps < length a \<or> length steps < length b
        then Inl (Panic ''There must be at least as many steps as coefficients.'')
      else
        ebind (for_each [0..<length a]
                 (\<lambda>i res. ebind (idx a i) (\<lambda>v.
                    upd_each (length res)
                      (\<lambda>j r. ebind (idx steps i) (\<lambda>s. ebind (idx (Step_Value s) j)
                         (\<lambda>x. Inr (r + v * x))))
                      res))
                 (replicate (length (Step_Value (steps ! 0))) 0))
          (for_each [0..<length b]
             (\<lambda>i res. ebind (idx b i) (\<lambda>v.
                upd_each (length res)
                  (\<lambda>j r. ebind (idx steps i) (\<lambda>s. ebind (idx (Step_Deriv s) j)
                     (\<lambda>d. Inr (r + step * v * d))))
                  res))))"

definition Shift :: "Step list \<Rightarrow> Step list" where
  "Shift steps = fold (\<lambda>i ss. ss[i := ss ! (i - 1)]) (rev [1..<length steps]) steps"

definition adamsBashfordStep :: "Step list \<Rightarrow> real \<Rightarrow> error + real list" where
  "adamsBashfordStep steps h = Implicit steps [1] [55 / 24, - 59 / 24, 37 / 24, - 9 / 24] h"

record adamsBashfordStepper =
  ab_steps :: "Step list"
  ab_h :: real
  ab_problem :: IVP
  ab_init :: "8 word"

text \<open>\<^verbatim>\<open>steps[i].Deriv = d\<close> and \<^verbatim>\<open>steps[i].Value = v\<close> on the array of steps.\<close>

definition set_Deriv :: "Step list \<Rightarrow> nat \<Rightarrow> real list \<Rightarrow> error + Step list" where
  "set_Deriv steps i d = ebind (idx steps i) (\<lambda>s. Inr (steps[i := s\<lparr>Step_Deriv := d\<rparr>]))"

definition set_StepValue :: "Step list \<Rightarrow> nat \<Rightarrow> real list \<Rightarrow> error + Step list" where
  "set_StepValue steps i v = ebind (idx steps i) (\<lambda>s. Inr (steps[i := s\<lparr>Step_Value := v\<rparr>]))"

definition adamsBashfordStepper_NextStep ::
  "adamsBashfordStepper \<Rightarrow> real \<Rightarrow> error + (Point option \<times> adamsBashfordStepper)" where
  "adamsBashfordStepper_NextStep s h =
     (if ab_h s = 0 then Inr (None, s)
      else if ab_init s \<noteq> 0 then
        ebind (RK4Step (ab_problem s) h) (\<lambda>(ivp1, deriv, ok).
          if \<not> ok then Inr (None, s\<lparr>ab_problem := ivp1\<rparr>)
          else
            let ivp2 = add_Time ivp1 h in
            ebind (set_Deriv (ab_steps s) (unat (ab_init s)) deriv) (\<lambda>steps1.
              let init' = ab_init s - 1 in
              ebind (set_StepValue steps1 (unat init')
                       (go_copy (replicate (length deriv) 0) (Value (Start ivp2))))
                (\<lambda>steps2.
                   Inr (Some (Start ivp2),
                        s\<lparr>ab_steps := steps2, ab_problem := ivp2, ab_init := init'\<rparr>))))
      else
        (case Derivative (ab_problem s) (Start (ab_problem s)) of (d, ok) \<Rightarrow>
           ebind (set_Deriv (ab_steps s) 0 d) (\<lambda>steps1.
             if \<not> ok then Inr (None, s\<lparr>ab_steps := steps1, ab_h := 0\<rparr>)
             else
               ebind (adamsBashfordStep steps1 h) (\<lambda>v.
                 let ivp1 = add_Time (set_Value (ab_problem s) v) h in
                 ebind (set_StepValue (Shift steps1) 0 v) (\<lambda>steps2.
                   Inr (Some (Start ivp1), s\<lparr>ab_steps := steps2, ab_problem := ivp1\<rparr>))))))"

definition adamsBashfordStepper_Next ::
  "adamsBashfordStepper \<Rightarrow> error + (Point option \<times> adamsBashfordStepper)" where
  "adamsBashfordStepper_Next s = adamsBashfordStepper_NextStep s (ab_h s)"

definition adamsBashford_withStep :: "real \<Rightarrow> IVP \<Rightarrow> adamsBashfordStepper" where
  "adamsBashford_withStep h ivp =
     \<lparr>ab_steps = (replicate 4 \<lparr>Step_Value = [], Step_Deriv = []\<rparr>)
                   [3 := \<lparr>Step_Value = go_copy (replicate (length (Value (Start ivp))) 0)
                                           (Value (Start ivp)),
                          Step_Deriv = []\<rparr>],
      ab_h = h, ab_problem = IVP_Clone ivp, ab_init = 3\<rparr>"

definition adamsBashford_Forward :: "real \<Rightarrow> IVP \<Rightarrow> adamsBashfordStepper" where
  "adamsBashford_Forward m ivp = adamsBashford_withStep m ivp"

definition adamsBashford_Backward :: "real \<Rightarrow> IVP \<Rightarrow> adamsBashfordStepper" where
  "adamsBashford_Backward m ivp = adamsBashford_withStep (- m) ivp"

text \<open>The call of \<^verbatim>\<open>Next\<close> that follows a call which returned a point.\<close>

definition and_Next ::
  "error + (Point option \<times> adamsBashfordStepper)
     \<Rightarrow> error + (Point option \<times> adamsBashfordStepper)" where
  "and_Next r = ebind r (\<lambda>(p, s). adamsBashfordStepper_Next s)"

text \<open>The problem \<open>x' = 1, x(0) = 0\<close> in one dimension, with solution \<open>x(t) = t\<close>.\<close>

definition unit_ivp :: IVP where
  "unit_ivp = \<lparr>Derivative = (\<lambda>p. ([1], True)), Start = \<lparr>Time = 0, Value = [0]\<rparr>\<rparr>"

subsection \<open>Generic adaptive wrapper (adaptiveStepper)\<close>

record adaptiveStepper =
  as_state :: IVP
  as_step :: real
  as_hmin :: real
  as_hmax :: real
  as_tolerance :: real
  as_method :: step_method
  as_order :: "8 word"

definition adaptStep :: "adaptiveStepper \<Rightarrow> real \<Rightarrow> adaptiveStepper" where
  "adaptStep s err =
     s\<lparr>as_step := AdaptiveUpdateStep (as_step s) (as_tolerance s) err (as_hmax s) (as_order s)\<rparr>"

text \<open>
  During one call of \<^verbatim>\<open>Next\<close> the field \<^verbatim>\<open>state.Start.Value\<close> refers to one of three
  arrays: the one it held on entry, or the local \<^verbatim>\<open>full\<close> or \<^verbatim>\<open>half\<close> (where
  \<^verbatim>\<open>getSteps\<close> leaves it when the inner method fails).  A frame records the three
  contents and which of them the field refers to; the \<open>Value\<close> stored in the stepper is
  kept equal to the contents of that array.
\<close>

datatype buffer = Own | Full | Half

record frame =
  fr_s :: adaptiveStepper
  fr_target :: buffer
  fr_own :: "real list"
  fr_full :: "real list"
  fr_half :: "real list"

definition buf :: "frame \<Rightarrow> buffer \<Rightarrow> real list" where
  "buf fr b = (case b of Own \<Rightarrow> fr_own fr | Full \<Rightarrow> fr_full fr | Half \<Rightarrow> fr_half fr)"

definition set_state_Value :: "frame \<Rightarrow> real list \<Rightarrow> frame" where
  "set_state_Value fr v = fr\<lparr>fr_s := (fr_s fr)\<lparr>as_state := set_Value (as_state (fr_s fr)) v\<rparr>\<rparr>"

definition store :: "frame \<Rightarrow> buffer \<Rightarrow> real list \<Rightarrow> frame" where
  "store fr b v =
     (let fr' = (case b of Own \<Rightarrow> fr\<lparr>fr_own := v\<rparr> | Full \<Rightarrow> fr\<lparr>fr_full := v\<rparr>
                 | Half \<Rightarrow> fr\<lparr>fr_half := v\<rparr>)
      in if b = fr_target fr then set_state_Value fr' v else fr')"

definition point_to :: "frame \<Rightarrow> buffer \<Rightarrow> frame" where
  "point_to fr b = set_state_Value (fr\<lparr>fr_target := b\<rparr>) (buf fr b)"

definition call_method :: "frame \<Rightarrow> real \<Rightarrow> error + (frame \<times> bool)" where
  "call_method fr h =
     ebind (as_method (fr_s fr) (as_state (fr_s fr)) h) (\<lambda>(ivp', ok).
       Inr (store (fr\<lparr>fr_s := (fr_s fr)\<lparr>as_state := ivp'\<rparr>\<rparr>) (fr_target fr)
              (Value (Start ivp')), ok))"

definition getSteps :: "frame \<Rightarrow> error + (frame \<times> bool)" where
  "getSteps fr =
     (let orig = fr_target fr;
          fr1 = store fr Full (go_copy (buf fr Full) (buf fr orig));
          fr2 = point_to fr1 Full
      in ebind (call_method fr2 (as_step (fr_s fr2))) (\<lambda>(fr3, ok).
           if \<not> ok then Inr (fr3, False)
           else
             let fr4 = store fr3 Half (go_copy (buf fr3 Half) (buf fr3 orig));
                 fr5 = point_to fr4 Half
             in ebind (call_method fr5 (as_step (fr_s fr5) / 2)) (\<lambda>(fr6, ok).
                  if \<not> ok then Inr (fr6, False)
                  else ebind (call_method fr6 (as_step (fr_s fr6) / 2)) (\<lambda>(fr7, ok).
                    if \<not> ok then Inr (fr7, False)
                    else Inr (point_to fr7 orig, True)))))"

definition halve_step :: "frame \<Rightarrow> frame" where
  "halve_step fr = fr\<lparr>fr_s := (fr_s fr)\<lparr>as_step := as_step (fr_s fr) * 0.5\<rparr>\<rparr>"

partial_function (option) getSteps_loop :: "frame \<Rightarrow> (error + (frame \<times> bool)) option" where
  "getSteps_loop fr =
     (case getSteps fr of
        Inl e \<Rightarrow> Some (Inl e)
      | Inr (fr1, ok) \<Rightarrow>
          if ok then Some (Inr (fr1, True))
          else let fr2 = halve_step fr1 in
            if as_step (fr_s fr2) < as_hmin (fr_s fr2) then Some (Inr (fr2, False))
            else getSteps_loop fr2)"

definition sq_diff :: "real list \<Rightarrow> real list \<Rightarrow> error + real" where
  "sq_diff full half =
     for_each [0..<length full]
       (\<lambda>i sqerr. ebind (idx full i) (\<lambda>v. ebind (idx half i)
          (\<lambda>w. Inr (sqerr + (v - w) * (v - w))))) 0"

definition richardson_err :: "frame \<Rightarrow> error + real" where
  "richardson_err fr =
     (let orderm1 = 1 / (2 ^ unat (as_order (fr_s fr)) - 1);
          multiplier = 1 + orderm1
      in ebind (sq_diff (fr_full fr) (fr_half fr)) (\<lambda>sqerr. Inr (sqrt sqerr * multiplier)))"

datatype 'a trial = Retry 'a | Done 'a

definition adaptive_accept :: "frame \<Rightarrow> error + frame trial" where
  "adaptive_accept fr =
     (let orderm1 = 1 / (2 ^ unat (as_order (fr_s fr)) - 1);
          multiplier = 1 + orderm1
      in ebind (richardson_err fr) (\<lambda>err.
           let tol = as_tolerance (fr_s fr) * \<bar>as_step (fr_s fr)\<bar> in
           if err > tol then Inr (Retry (fr\<lparr>fr_s := adaptStep (fr_s fr) err\<rparr>))
           else
             ebind (upd_each (length (fr_full fr))
                      (\<lambda>i _. ebind (idx (fr_full fr) i) (\<lambda>v. ebind (idx (fr_half fr) i)
                         (\<lambda>w. Inr (multiplier * w - orderm1 * v))))
                      (buf fr (fr_target fr)))
               (\<lambda>x. let fr1 = store fr (fr_target fr) x;
                        s1 = (fr_s fr1)\<lparr>as_state := add_Time (as_state (fr_s fr1))
                                                      (as_step (fr_s fr1))\<rparr>
                    in Inr (Done (fr1\<lparr>fr_s := adaptStep s1 err\<rparr>)))))"

partial_function (option) adaptive_loop ::
  "frame \<Rightarrow> (error + (Point option \<times> adaptiveStepper)) option" where
  "adaptive_loop fr =
     (if as_step (fr_s fr) \<ge> as_hmin (fr_s fr) then
        Option.bind (getSteps_loop fr) (\<lambda>r.
          case r of
            Inl e \<Rightarrow> Some (Inl e)
          | Inr (fr1, ok) \<Rightarrow>
              if \<not> ok then Some (Inr (None, fr_s fr1))
              else
                (case adaptive_accept fr1 of
                   Inl e \<Rightarrow> Some (Inl e)
                 | Inr (Retry fr2) \<Rightarrow> adaptive_loop fr2
                 | Inr (Done fr2) \<Rightarrow>
                     Some (Inr (Some (Start (as_state (fr_s fr2))), fr_s fr2))))
      else Some (Inr (None, fr_s fr)))"

definition enter_Next :: "adaptiveStepper \<Rightarrow> frame" where
  "enter_Next s =
     (let size = length (Value (Start (as_state s)))
      in \<lparr>fr_s = s, fr_target = Own, fr_own = Value (Start (as_state s)),
          fr_full = replicate size 0, fr_half = replicate size 0\<rparr>)"

definition adaptiveStepper_Next :: "adaptiveStepper next_fn" where
  "adaptiveStepper_Next s = adaptive_loop (enter_Next s)"

record AdaptiveStepMethod =
  am_Step :: real
  am_Hmin :: real
  am_Hmax :: real
  am_Tolerance :: real
  am_Method :: step_method
  am_Order :: "8 word"

definition toStepper :: "AdaptiveStepMethod \<Rightarrow> IVP \<Rightarrow> real \<Rightarrow> adaptiveStepper Stepper" where
  "toStepper m ivp step =
     \<lparr>st = \<lparr>as_state = IVP_Clone ivp, as_step = step, as_hmin = am_Hmin m, as_hmax = am_Hmax m,
             as_tolerance = am_Tolerance m, as_method = am_Method m, as_order = am_Order m\<rparr>,
      nextf = adaptiveStepper_Next\<rparr>"

definition AdaptiveStepMethod_Forward :: "AdaptiveStepMethod \<Rightarrow> IVP \<Rightarrow> adaptiveStepper Stepper" where
  "AdaptiveStepMethod_Forward m ivp = toStepper m ivp (am_Step m)"

definition AdaptiveStepMethod_Backward :: "AdaptiveStepMethod \<Rightarrow> IVP \<Rightarrow> adaptiveStepper Stepper" where
  "AdaptiveStepMethod_Backward m ivp = toStepper m ivp (- am_Step m)"

definition AdaptiveEuler :: "real \<Rightarrow> real \<Rightarrow> real \<Rightarrow> real \<Rightarrow> AdaptiveStepMethod" where
  "AdaptiveEuler tolerance step hmin hmax =
     \<lparr>am_Step = step, am_Hmin = hmin, am_Hmax = hmax, am_Tolerance = tolerance,
      am_Method = eulerStep, am_Order = 1\<rparr>"

definition AdaptiveRK4 :: "real \<Rightarrow> real \<Rightarrow> real \<Rightarrow> real \<Rightarrow> AdaptiveStepMethod" where
  "AdaptiveRK4 tolerance step hmin hmax =
     \<lparr>am_Step = step, am_Hmin = hmin, am_Hmax = hmax, am_Tolerance = tolerance,
      am_Method = rk4Step, am_Order = 4\<rparr>"

subsection \<open>Runge-Kutta-Fehlberg stepper\<close>

record rkFehlbergStepper =
  rk_current :: Point
  rk_deriv :: "Point \<Rightarrow> real list \<times> bool"
  rk_step :: real
  rk_tol :: real
  rk_hmin :: real
  rk_hmax :: real

text \<open>
  One stage: the point \<open>p\<close> is the current point moved in time by \<open>dt\<close> with
  \<open>incr i\<close> added to component \<open>i\<close> of its value; the result is the derivative there
  scaled by the step, or nothing when the derivative reports a domain failure.
\<close>

definition rkf_stage ::
  "rkFehlbergStepper \<Rightarrow> real \<Rightarrow> (nat \<Rightarrow> error + real) \<Rightarrow> error + real list option" where
  "rkf_stage s dt incr =
     ebind (upd_each (length (Value (rk_current s)))
              (\<lambda>i x. ebind (incr i) (\<lambda>d. Inr (x + d))) (Value (rk_current s)))
       (\<lambda>v. case rk_deriv s \<lparr>Time = Time (rk_current s) + dt, Value = v\<rparr> of
               (k, ok) \<Rightarrow> if \<not> ok then Inr None else Inr (Some (scale_by (rk_step s) k)))"

definition rkf_stages :: "rkFehlbergStepper \<Rightarrow> error + (real list list) option" where
  "rkf_stages s =
     (case rk_deriv s (rk_current s) of (k1r, ok1) \<Rightarrow>
      if \<not> ok1 then Inr None else
      let k1 = scale_by (rk_step s) k1r in
      ebind (rkf_stage s (rk_step s / 4)
               (\<lambda>i. ebind (idx k1 i) (\<lambda>a. Inr (a / 4))))
      (\<lambda>r2. case r2 of None \<Rightarrow> Inr None | Some k2 \<Rightarrow>
      ebind (rkf_stage s (rk_step s * 3 / 8)
               (\<lambda>i. ebind (idx k1 i) (\<lambda>a. ebind (idx k2 i) (\<lambda>b. Inr ((3 * a + 9 * b) / 32)))))
      (\<lambda>r3. case r3 of None \<Rightarrow> Inr None | Some k3 \<Rightarrow>
      ebind (rkf_stage s (rk_step s * 12 / 13)
               (\<lambda>i. ebind (idx k1 i) (\<lambda>a. ebind (idx k2 i) (\<lambda>b. ebind (idx k3 i)
                  (\<lambda>c. Inr ((1932 * a - 7200 * b + 7296 * c) / 2197))))))
      (\<lambda>r4. case r4 of None \<Rightarrow> Inr None | Some k4 \<Rightarrow>
      ebind (rkf_stage s (rk_step s)
               (\<lambda>i. ebind (idx k1 i) (\<lambda>a. ebind (idx k2 i) (\<lambda>b. ebind (idx k3 i)
                  (\<lambda>c. ebind (idx k4 i)
                  (\<lambda>d. Inr (439 * a / 216 - 8 * b + 3680 * c / 513 - 845 * d / 4104)))))))
      (\<lambda>r5. case r5 of None \<Rightarrow> Inr None | Some k5 \<Rightarrow>
      ebind (rkf_stage s (rk_step s / 2)
               (\<lambda>i. ebind (idx k1 i) (\<lambda>a. ebind (idx k2 i) (\<lambda>b. ebind (idx k3 i)
                  (\<lambda>c. ebind (idx k4 i) (\<lambda>d. ebind (idx k5 i)
                  (\<lambda>e. Inr (- 8 * a / 27 + 2 * b - 3544 * c / 2656 + 1859 * d / 4104
                             - 11 * e / 40))))))))
      (\<lambda>r6. case r6 of None \<Rightarrow> Inr None | Some k6 \<Rightarrow>
         Inr (Some [k1, k2, k3, k4, k5, k6])))))))"

text \<open>The error estimate and the fourth-order update, from the stages \<open>[k1, \<dots>, k6]\<close>.\<close>

definition rkf_error :: "real list list \<Rightarrow> real list \<Rightarrow> error + real" where
  "rkf_error ks val =
     ebind (for_each [0..<length val]
              (\<lambda>i sqerr. ebind (idx (ks ! 0) i) (\<lambda>a. ebind (idx (ks ! 2) i) (\<lambda>c.
                 ebind (idx (ks ! 3) i) (\<lambda>d. ebind (idx (ks ! 4) i) (\<lambda>e. ebind (idx (ks ! 5) i)
                 (\<lambda>f. let v = a / 360 - 128 * c / 4275 - 2197 * d / 75240 + e / 50 + 2 * f / 55
                      in Inr (sqerr + v * v))))))) 0)
       (\<lambda>sqerr. Inr (sqrt sqerr))"

definition rkf_update :: "real list list \<Rightarrow> real list \<Rightarrow> error + real list" where
  "rkf_update ks val =
     upd_each (length val)
       (\<lambda>i x. ebind (idx (ks ! 0) i) (\<lambda>a. ebind (idx (ks ! 2) i) (\<lambda>c.
          ebind (idx (ks ! 3) i) (\<lambda>d. ebind (idx (ks ! 4) i)
          (\<lambda>e. Inr (x + (25 * a / 216 + 1408 * c / 2565 + 2197 * d / 4104 - e / 5)))))))
       val"

definition rkf_trial :: "rkFehlbergStepper \<Rightarrow> error + rkFehlbergStepper trial" where
  "rkf_trial s =
     ebind (rkf_stages s) (\<lambda>r.
       case r of
         None \<Rightarrow> Inr (Retry (s\<lparr>rk_step := rk_step s * 0.5\<rparr>))
       | Some ks \<Rightarrow>
           ebind (rkf_error ks (Value (rk_current s))) (\<lambda>err.
             if err > rk_tol s
             then Inr (Retry (s\<lparr>rk_step :=
                                  AdaptiveUpdateStep (rk_step s) (rk_tol s) err (rk_hmax s) 4\<rparr>))
             else
               ebind (rkf_update ks (Value (rk_current s))) (\<lambda>v.
                 Inr (Done (s\<lparr>rk_current :=
                                 \<lparr>Time = Time (rk_current s) + rk_step s, Value = v\<rparr>,
                               rk_step :=
                                 AdaptiveUpdateStep (rk_step s) (rk_tol s) err (rk_hmax s) 4\<rparr>)))))"

partial_function (option) rkFehlbergStepper_Next :: "rkFehlbergStepper next_fn" where
  "rkFehlbergStepper_Next s =
     (if rk_step s \<ge> rk_hmin s then
        (case rkf_trial s of
           Inl e \<Rightarrow> Some (Inl e)
         | Inr (Retry s') \<Rightarrow> rkFehlbergStepper_Next s'
         | Inr (Done s') \<Rightarrow> Some (Inr (Some (rk_current s'), s')))
      else Some (Inr (None, s)))"

record rkFehlbergMethod =
  rm_step :: real
  rm_tol :: real
  rm_hmin :: real
  rm_hmax :: real

definition rkFehlberg_withStep :: "rkFehlbergMethod \<Rightarrow> real \<Rightarrow> IVP \<Rightarrow> rkFehlbergStepper Stepper" where
  "rkFehlberg_withStep m step ivp =
     \<lparr>st = \<lparr>rk_current = Point_Clone (Start ivp), rk_deriv = Derivative ivp, rk_step = step,
             rk_tol = rm_tol m, rk_hmin = rm_hmin m, rk_hmax = rm_hmax m\<rparr>,
      nextf = rkFehlbergStepper_Next\<rparr>"

definition rkFehlberg_Forward :: "rkFehlbergMethod \<Rightarrow> IVP \<Rightarrow> rkFehlbergStepper Stepper" where
  "rkFehlberg_Forward m ivp = rkFehlberg_withStep m (rm_step m) ivp"

definition rkFehlberg_Backward :: "rkFehlbergMethod \<Rightarrow> IVP \<Rightarrow> rkFehlbergStepper Stepper" where
  "rkFehlberg_Backward m ivp = rkFehlberg_withStep m (- rm_step m) ivp"

definition RKFehlberg :: "real \<Rightarrow> real \<Rightarrow> real \<Rightarrow> real \<Rightarrow> rkFehlbergMethod" where
  "RKFehlberg tolerance step hmin hmax =
     \<lparr>rm_step = step, rm_tol = tolerance, rm_hmin = hmin, rm_hmax = hmax\<rparr>"

subsection \<open>Events (event.go) and the stepping driver StepUntil\<close>

text \<open>
  An action is a Go closure: it may change the caller's variables and its answer may
  depend on them.  The caller's variables are a state of type \<open>'u\<close> that every action
  (and the callback of \<^verbatim>\<open>StepUntil\<close>) receives and returns, so the order of the
  invocations is visible in the final state.  \<^verbatim>\<open>Cross\<close> is a pure function.
\<close>

record 'u Event =
  Cross :: "Point \<Rightarrow> real"
  Tolerance :: real
  Action :: "'u \<Rightarrow> Point \<Rightarrow> bool \<times> 'u"

partial_function (option) FindPoint_loop ::
  "'u Event \<Rightarrow> Interpolator \<Rightarrow> Point \<Rightarrow> Point \<Rightarrow> bool \<Rightarrow> Point \<Rightarrow> Point
     \<Rightarrow> (error + Point) option" where
  "FindPoint_loop e i p1 p2 downwards mn mx =
     (let t = (Time mn + Time mx) / 2 in
      case FindValue i p1 p2 t of
        Inl er \<Rightarrow> Some (Inl er)
      | Inr v \<Rightarrow>
          let mid = \<lparr>Time = t, Value = v\<rparr>; val = Cross e mid in
          if \<bar>val\<bar> < Tolerance e then Some (Inr mid)
          else if downwards then
            (if val > 0 then FindPoint_loop e i p1 p2 downwards mid mx
             else FindPoint_loop e i p1 p2 downwards mn mid)
          else
            (if val > 0 then FindPoint_loop e i p1 p2 downwards mn mid
             else FindPoint_loop e i p1 p2 downwards mid mx))"

definition FindPoint ::
  "'u Event \<Rightarrow> Interpolator \<Rightarrow> Point \<Rightarrow> Point \<Rightarrow> (error + Point) option" where
  "FindPoint e i p1 p2 =
     (let (mn, mx) = (if Time p1 < Time p2 then (p1, p2) else (p2, p1));
          downwards = (Cross e p1 > 0)
      in FindPoint_loop e i p1 p2 downwards mn mx)"

record requiredAction =
  ra_index :: nat
  ra_point :: Point

definition differentSign :: "real \<Rightarrow> real \<Rightarrow> bool" where
  "differentSign f1 f2 = ((f1 \<le> 0 \<and> f2 \<ge> 0) \<or> (f1 \<ge> 0 \<and> f2 \<le> 0))"

text \<open>
  \<^verbatim>\<open>sort.Sort\<close> with \<^verbatim>\<open>Less(i, j) = r[i].point.Time < r[j].point.Time\<close>.  For up to
  twelve elements the Go library sorts by insertion, which keeps the order of equal
  times, as \<^const>\<open>sort_key\<close> does.
\<close>

definition sort_actions :: "requiredAction list \<Rightarrow> requiredAction list" where
  "sort_actions acts = sort_key (\<lambda>a. Time (ra_point a)) acts"

text \<open>
  The detection loop shared by \<^verbatim>\<open>StepUntil\<close> and \<^verbatim>\<open>CacheSolver.getActions\<close>: for each
  index, the new crossing value is compared with the stored one, a sign change is
  localized with \<^verbatim>\<open>FindPoint\<close>, and the stored value is replaced.
\<close>

fun detect ::
  "'u Event list \<Rightarrow> Interpolator \<Rightarrow> Point \<Rightarrow> Point \<Rightarrow> nat list \<Rightarrow> real list
     \<Rightarrow> requiredAction list \<Rightarrow> (error + (requiredAction list \<times> real list)) option" where
  "detect evs ip cur nxt [] vals acts = Some (Inr (acts, vals))"
| "detect evs ip cur nxt (i # is) vals acts =
     (case idx evs i of
        Inl e \<Rightarrow> Some (Inl e)
      | Inr ev \<Rightarrow>
          let newVal = Cross ev nxt in
          (case idx vals i of
             Inl e \<Rightarrow> Some (Inl e)
           | Inr old \<Rightarrow>
               Option.bind
                 (if differentSign old newVal
                  then map_option
                         (map_sum id (\<lambda>p. acts @ [\<lparr>ra_index = i, ra_point = p\<rparr>]))
                         (FindPoint ev ip cur nxt)
                  else Some (Inr acts))
                 (\<lambda>r. case r of
                    Inl e \<Rightarrow> Some (Inl e)
                  | Inr acts' \<Rightarrow> detect evs ip cur nxt is (vals[i := newVal]) acts')))"

text \<open>
  Running the actions in list order; the result is the index of the first event whose
  action answered false, if any.
\<close>

fun run_actions ::
  "'u Event list \<Rightarrow> requiredAction list \<Rightarrow> 'u \<Rightarrow> error + (nat option \<times> 'u)" where
  "run_actions evs [] u = Inr (None, u)"
| "run_actions evs (a # as) u =
     ebind (idx evs (ra_index a)) (\<lambda>ev.
       case Action ev u (ra_point a) of
         (ok, u') \<Rightarrow> if \<not> ok then Inr (Some (ra_index a), u') else run_actions evs as u')"

partial_function (option) StepUntil_loop ::
  "'s Stepper \<Rightarrow> Point \<Rightarrow> real list \<Rightarrow> Interpolator \<Rightarrow> ('u \<Rightarrow> Point \<Rightarrow> 'u) option
     \<Rightarrow> 'u Event list \<Rightarrow> 'u \<Rightarrow> (error + ((nat \<times> bool) \<times> 's Stepper \<times> 'u)) option" where
  "StepUntil_loop s prev vs ip callback evs u =
     Option.bind (Stepper_Next s) (\<lambda>r.
       case r of
         Inl e \<Rightarrow> Some (Inl e)
       | Inr (None, s') \<Rightarrow> Some (Inr ((0, False), s', u))
       | Inr (Some point, s') \<Rightarrow>
           Option.bind (detect evs ip prev point [0..<length evs] vs []) (\<lambda>d.
             case d of
               Inl e \<Rightarrow> Some (Inl e)
             | Inr (found, vs') \<Rightarrow>
                 (case (if Time point < Time prev then reverse_loop (sort_actions found)
                        else Inr (sort_actions found)) of
                    Inl e \<Rightarrow> Some (Inl e)
                  | Inr actions \<Rightarrow>
                      (case run_actions evs actions u of
                         Inl e \<Rightarrow> Some (Inl e)
                       | Inr (Some i, u') \<Rightarrow> Some (Inr ((i, True), s', u'))
                       | Inr (None, u') \<Rightarrow>
                           (case callback of
                              None \<Rightarrow> Some (Inl NilDereference)
                            | Some cb \<Rightarrow>
                                StepUntil_loop s' (Point_Clone point) vs' ip callback evs
                                  (cb u' point))))))"

definition StepUntil ::
  "'s Stepper \<Rightarrow> Point \<Rightarrow> Interpolator \<Rightarrow> ('u \<Rightarrow> Point \<Rightarrow> 'u) option \<Rightarrow> 'u Event list \<Rightarrow> 'u
     \<Rightarrow> (error + ((nat \<times> bool) \<times> 's Stepper \<times> 'u)) option" where
  "StepUntil s init ip callback evs u =
     StepUntil_loop s init (map (\<lambda>e. Cross e init) evs) ip callback evs u"

subsection \<open>Cached solutions (CacheSolver)\<close>

record ('s, 'u) CacheSolver =
  cs_backward :: "Point list"
  cs_forward :: "Point list"
  cs_backStep :: "'s Stepper option"
  cs_forStep :: "'s Stepper option"
  cs_evs :: "'u Event list"
  cs_interp :: Interpolator

definition CacheSolve ::
  "'s Method \<Rightarrow> IVP \<Rightarrow> Interpolator \<Rightarrow> 'u Event list \<Rightarrow> ('s, 'u) CacheSolver" where
  "CacheSolve m ivp ip evs =
     \<lparr>cs_backward = [], cs_forward = [Point_Clone (Start ivp)],
      cs_backStep = Some (Backward m ivp), cs_forStep = Some (Forward m ivp),
      cs_evs = evs, cs_interp = ip\<rparr>"

definition CacheSolver_Start :: "('s, 'u) CacheSolver \<Rightarrow> error + real" where
  "CacheSolver_Start c =
     (if length (cs_backward c) > 0
      then ebind (idx (cs_backward c) (length (cs_backward c) - 1)) (\<lambda>p. Inr (Time p))
      else ebind (idx (cs_forward c) 0) (\<lambda>p. Inr (Time p)))"

definition CacheSolver_End :: "('s, 'u) CacheSolver \<Rightarrow> error + real" where
  "CacheSolver_End c =
     ebind (idxi (cs_forward c) (int (length (cs_forward c)) - 1)) (\<lambda>p. Inr (Time p))"

definition getActions ::
  "('s, 'u) CacheSolver \<Rightarrow> Point \<Rightarrow> Point \<Rightarrow> real list
     \<Rightarrow> (error + (requiredAction list \<times> real list)) option" where
  "getActions c current nxt vals =
     map_option (map_sum id (\<lambda>(acts, vals'). (sort_actions acts, vals')))
       (detect (cs_evs c) (cs_interp c) current nxt [0..<length vals] vals [])"

text \<open>
  The crossing values at the starting point: \<^verbatim>\<open>vals[i] = c.evs[i].Cross(&current)\<close> for
  every index of \<^verbatim>\<open>vals\<close>, which has the length of \<^verbatim>\<open>c.evs\<close>.
\<close>

definition initial_vals :: "'u Event list \<Rightarrow> Point \<Rightarrow> real list" where
  "initial_vals evs current = map (\<lambda>e. Cross e current) evs"

partial_function (option) expandBackward_loop ::
  "('s, 'u) CacheSolver \<Rightarrow> 's Stepper \<Rightarrow> real \<Rightarrow> Point \<Rightarrow> real list \<Rightarrow> 'u
     \<Rightarrow> (error + (bool \<times> ('s, 'u) CacheSolver \<times> 'u)) option" where
  "expandBackward_loop c s t current vals u =
     (if t < Time current then
        Option.bind (Stepper_Next s) (\<lambda>r.
          case r of
            Inl e \<Rightarrow> Some (Inl e)
          | Inr (None, s') \<Rightarrow> Some (Inr (False, c\<lparr>cs_backStep := None\<rparr>, u))
          | Inr (Some nxt, s') \<Rightarrow>
              Option.bind (getActions c current nxt vals) (\<lambda>g.
                case g of
                  Inl e \<Rightarrow> Some (Inl e)
                | Inr (actions, vals') \<Rightarrow>
                    (case run_actions (cs_evs c) (rev actions) u of
                       Inl e \<Rightarrow> Some (Inl e)
                     | Inr (Some i, u') \<Rightarrow> Some (Inr (False, c\<lparr>cs_backStep := Some s'\<rparr>, u'))
                     | Inr (None, u') \<Rightarrow>
                         expandBackward_loop
                           (c\<lparr>cs_backward := cs_backward c @ [Point_Clone nxt]\<rparr>) s' t
                           (Point_Clone nxt) vals' u')))
      else Some (Inr (True, c\<lparr>cs_backStep := Some s\<rparr>, u)))"

definition expandBackward ::
  "('s, 'u) CacheSolver \<Rightarrow> real \<Rightarrow> 'u \<Rightarrow> (error + (bool \<times> ('s, 'u) CacheSolver \<times> 'u)) option" where
  "expandBackward c t u =
     (case cs_backStep c of
        None \<Rightarrow> Some (Inr (False, c, u))
      | Some s \<Rightarrow>
          (case (if length (cs_backward c) = 0 then idx (cs_forward c) 0
                 else idx (cs_backward c) (length (cs_backward c) - 1)) of
             Inl e \<Rightarrow> Some (Inl e)
           | Inr current \<Rightarrow>
               expandBackward_loop c s t current (initial_vals (cs_evs c) current) u))"

partial_function (option) expandForward_loop ::
  "('s, 'u) CacheSolver \<Rightarrow> 's Stepper \<Rightarrow> real \<Rightarrow> Point \<Rightarrow> real list \<Rightarrow> 'u
     \<Rightarrow> (error + (bool \<times> ('s, 'u) CacheSolver \<times> 'u)) option" where
  "expandForward_loop c s t current vals u =
     (if t < Time current then
        Option.bind (Stepper_Next s) (\<lambda>r.
          case r of
            Inl e \<Rightarrow> Some (Inl e)
          | Inr (None, s') \<Rightarrow> Some (Inr (False, c\<lparr>cs_forStep := None\<rparr>, u))
          | Inr (Some nxt, s') \<Rightarrow>
              Option.bind (getActions c current nxt vals) (\<lambda>g.
                case g of
                  Inl e \<Rightarrow> Some (Inl e)
                | Inr (actions, vals') \<Rightarrow>
                    (case run_actions (cs_evs c) actions u of
                       Inl e \<Rightarrow> Some (Inl e)
                     | Inr (Some i, u') \<Rightarrow> Some (Inr (False, c\<lparr>cs_forStep := Some s'\<rparr>, u'))
                     | Inr (None, u') \<Rightarrow>
                         expandForward_loop
                           (c\<lparr>cs_forward := cs_forward c @ [Point_Clone nxt]\<rparr>) s' t
                           (Point_Clone nxt) vals' u')))
      else Some (Inr (True, c\<lparr>cs_forStep := Some s\<rparr>, u)))"

definition expandForward ::
  "('s, 'u) CacheSolver \<Rightarrow> real \<Rightarrow> 'u \<Rightarrow> (error + (bool \<times> ('s, 'u) CacheSolver \<times> 'u)) option" where
  "expandForward c t u =
     (case cs_forStep c of
        None \<Rightarrow> Some (Inr (False, c, u))
      | Some s \<Rightarrow>
          (case idxi (cs_forward c) (int (length (cs_forward c)) - 1) of
             Inl e \<Rightarrow> Some (Inl e)
           | Inr current \<Rightarrow>
               expandForward_loop c s t current (initial_vals (cs_evs c) current) u))"

text \<open>
  The scan \<^verbatim>\<open>for t > xs[i].Time { i++ }\<close>, which panics when \<open>i\<close> runs off the slice, and
  the part of \<^verbatim>\<open>Get\<close> after the two expansions, which looks the time up in the stored
  lists and interpolates.
\<close>

function scan :: "Point list \<Rightarrow> real \<Rightarrow> nat \<Rightarrow> error + nat" where
  "scan xs t i =
     (if i < length xs then (if t > Time (xs ! i) then scan xs t (Suc i) else Inr i)
      else Inl IndexOutOfRange)"
  by pat_completeness auto
termination
  by (relation "measure (\<lambda>(xs, t, i). length xs - i)") auto

declare scan.simps [simp del]

definition lookup :: "('s, 'u) CacheSolver \<Rightarrow> real \<Rightarrow> error + real list" where
  "lookup c t =
     ebind (idx (cs_forward c) 0) (\<lambda>f0.
       if t \<ge> Time f0 then
         ebind (scan (cs_forward c) t 1) (\<lambda>i.
           ebind (idx (cs_forward c) (i - 1)) (\<lambda>a. ebind (idx (cs_forward c) i) (\<lambda>b.
             FindValue (cs_interp c) a b t)))
       else
         ebind (scan (cs_backward c) t 0) (\<lambda>i.
           if i = 0 then
             ebind (idx (cs_backward c) 0) (\<lambda>a. ebind (idx (cs_forward c) 0) (\<lambda>b.
               FindValue (cs_interp c) a b t))
           else
             ebind (idx (cs_backward c) i) (\<lambda>a. ebind (idx (cs_backward c) (i - 1)) (\<lambda>b.
               FindValue (cs_interp c) a b t))))"

definition CacheSolver_Get ::
  "('s, 'u) CacheSolver \<Rightarrow> real \<Rightarrow> 'u
     \<Rightarrow> (error + ((real list \<times> bool) \<times> ('s, 'u) CacheSolver \<times> 'u)) option" where
  "CacheSolver_Get c t u =
     (case CacheSolver_Start c of
        Inl e \<Rightarrow> Some (Inl e)
      | Inr start \<Rightarrow>
          Option.bind (if t < start then expandBackward c t u else Some (Inr (True, c, u)))
            (\<lambda>r1. case r1 of
               Inl e \<Rightarrow> Some (Inl e)
             | Inr (ok1, c1, u1) \<Rightarrow>
                 if \<not> ok1 then Some (Inr (([], False), c1, u1))
                 else
                   (case CacheSolver_End c1 of
                      Inl e \<Rightarrow> Some (Inl e)
                    | Inr end \<Rightarrow>
                        Option.bind
                          (if t > end then expandForward c1 t u1 else Some (Inr (True, c1, u1)))
                          (\<lambda>r2. case r2 of
                             Inl e \<Rightarrow> Some (Inl e)
                           | Inr (ok2, c2, u2) \<Rightarrow>
                               if \<not> ok2 then Some (Inr (([], False), c2, u2))
                               else Some (map_sum id (\<lambda>x. ((x, True), c2, u2)) (lookup c2 t))))))"

subsection \<open>Concrete problems used as inputs\<close>

text \<open>The problem \<open>x' = 0, x(0) = 0\<close> in one dimension, defined everywhere.\<close>

definition zero_ivp :: IVP where
  "zero_ivp = \<lparr>Derivative = (\<lambda>p. ([0], True)), Start = \<lparr>Time = 0, Value = [0]\<rparr>\<rparr>"

text \<open>
  A problem whose domain ends after time \<open>0\<close>: the derivative is \<open>1\<close> up to time \<open>0\<close>, and
  later points are outside the domain (the flag is false, the vector is not to be used).
\<close>

definition edge_ivp :: IVP where
  "edge_ivp = \<lparr>Derivative = (\<lambda>p. if Time p \<le> 0 then ([1], True) else ([0], False)),
               Start = \<lparr>Time = 0, Value = [0]\<rparr>\<rparr>"


text \<open>
  The backward stepper of the Euler method with step \<open>1\<close> on \<^const>\<open>zero_ivp\<close>, when its
  current point is at time \<open>t\<close>.
\<close>

definition zero_backward :: "real \<Rightarrow> fixedStepper Stepper" where
  "zero_backward t =
     \<lparr>st = \<lparr>fs_state = \<lparr>Derivative = (\<lambda>p. ([0], True)), Start = \<lparr>Time = t, Value = [0]\<rparr>\<rparr>,
             fs_step = - 1, fs_method = eulerStep\<rparr>,
      nextf = fixedStepper_Next\<rparr>"

text \<open>
  The Adams-Bashford stepper with step \<open>2\<close> on \<^const>\<open>unit_ivp\<close> with history \<open>ss\<close>,
  current point \<open>(t, [x])\<close> and \<open>i\<close> bootstrap steps left.
\<close>

definition unit_stepper :: "Step list \<Rightarrow> real \<Rightarrow> real \<Rightarrow> 8 word \<Rightarrow> adamsBashfordStepper" where
  "unit_stepper ss t x i =
     \<lparr>ab_steps = ss, ab_h = 2,
      ab_problem = \<lparr>Derivative = (\<lambda>p. ([1], True)), Start = \<lparr>Time = t, Value = [x]\<rparr>\<rparr>,
      ab_init = i\<rparr>"

definition hist :: "real \<Rightarrow> real \<Rightarrow> Step" where
  "hist v d = \<lparr>Step_Value = [v], Step_Deriv = [d]\<rparr>"

definition fresh :: "real \<Rightarrow> Step" where
  "fresh v = \<lparr>Step_Value = [v], Step_Deriv = []\<rparr>"

definition no_Step :: Step where
  "no_Step = \<lparr>Step_Value = [], Step_Deriv = []\<rparr>"

text \<open>
  A Runge-Kutta-Fehlberg stepper at \<open>(0, [0])\<close> with step \<open>1/2\<close>, minimum step \<open>1/4\<close> and
  maximum step \<open>1\<close>, on a derivative that is \<open>55\<close> at time \<open>1/4\<close> and \<open>0\<close> at every other
  time; only the sixth stage, taken at \<open>t + h/2 = 1/4\<close>, sees a non-zero derivative.
\<close>

definition spike_stepper :: "real \<Rightarrow> rkFehlbergStepper" where
  "spike_stepper tol =
     \<lparr>rk_current = \<lparr>Time = 0, Value = [0]\<rparr>,
      rk_deriv = (\<lambda>p. if Time p = 1 / 4 then ([55], True) else ([0], True)),
      rk_step = 1 / 2, rk_tol = tol, rk_hmin = 1 / 4, rk_hmax = 1\<rparr>"

definition spike_stages :: "real list list" where
  "spike_stages = [[0], [0], [0], [0], [0], [55 / 2]]"

text \<open>
  The backward stepper of the Euler method with step \<open>1\<close> on \<^const>\<open>unit_ivp\<close> when its
  current point is \<open>(t, [t])\<close>, and the cache that
  \<^verbatim>\<open>CacheSolve(Euler(1), unit_ivp, LinearInterpolator{})\<close> has become after \<^verbatim>\<open>Get(-1)\<close>:
  one backward point, the initial point, and the two steppers.
\<close>

definition unit_backward :: "real \<Rightarrow> fixedStepper Stepper" where
  "unit_backward t =
     \<lparr>st = \<lparr>fs_state = \<lparr>Derivative = (\<lambda>p. ([1], True)), Start = \<lparr>Time = t, Value = [t]\<rparr>\<rparr>,
             fs_step = - 1, fs_method = eulerStep\<rparr>,
      nextf = fixedStepper_Next\<rparr>"

definition stepped_back :: "(fixedStepper, unit) CacheSolver" where
  "stepped_back =
     \<lparr>cs_backward = [\<lparr>Time = - 1, Value = [- 1]\<rparr>], cs_forward = [\<lparr>Time = 0, Value = [0]\<rparr>],
      cs_backStep = Some (unit_backward (- 1)), cs_forStep = Some (Forward (Euler 1) unit_ivp),
      cs_evs = [], cs_interp = LinearInterpolator\<rparr>"

text \<open>
  An event whose crossing function is \<open>t - z\<close>, with zero at time \<open>z\<close>; its action
  appends \<open>(z, t)\<close>, the event's zero and the time of the point it is called with, to the
  caller's log and answers \<open>go\<close>.  The problem \<open>x' = 1, x(t) = t\<close> started at time \<open>t\<close>,
  and the Euler stepper with step \<open>h\<close> on it.
\<close>

definition time_event :: "real \<Rightarrow> real \<Rightarrow> bool \<Rightarrow> (real \<times> real) list Event" where
  "time_event z tol go =
     \<lparr>Cross = (\<lambda>p. Time p - z), Tolerance = tol, Action = (\<lambda>u p. (go, u @ [(z, Time p)]))\<rparr>"

definition unit_from :: "real \<Rightarrow> IVP" where
  "unit_from t = \<lparr>Derivative = (\<lambda>p. ([1], True)), Start = \<lparr>Time = t, Value = [t]\<rparr>\<rparr>"

definition euler_at :: "real \<Rightarrow> real \<Rightarrow> fixedStepper Stepper" where
  "euler_at h t =
     \<lparr>st = \<lparr>fs_state = unit_from t, fs_step = h, fs_method = eulerStep\<rparr>,
      nextf = fixedStepper_Next\<rparr>"

section \<open>Properties\<close>

subsection \<open>Step-size update\<close>

lemma quarter_powr_quarter: "(0.25::real) powr (1 / 4) = sqrt (1 / 2)"
proof -
  have "(0.25::real) powr (1 / 4) = ((1 / 4) powr (1 / 2)) powr (1 / 2)"
    by (simp add: powr_powr)
  also have "((1 / 4 :: real) powr (1 / 2)) = sqrt (1 / 4)"
    by (simp add: powr_half_sqrt)
  also have "sqrt (1 / 4 :: real) = 1 / 2"
    by (simp add: real_sqrt_divide)
  also have "(1 / 2 :: real) powr (1 / 2) = sqrt (1 / 2)"
    by (simp add: powr_half_sqrt)
  finally show ?thesis .
qed

lemma sqrt_half_bounds: "0.707 < sqrt (1 / 2 :: real)" "sqrt (1 / 2 :: real) < 0.708"
proof -
  show "0.707 < sqrt (1 / 2 :: real)"
    by (rule real_less_rsqrt) (simp add: power2_eq_square)
  show "sqrt (1 / 2 :: real) < 0.708"
    by (rule real_less_lsqrt) (simp_all add: power2_eq_square)
qed

lemma AdaptiveUpdateStep_example:
  "AdaptiveUpdateStep 1 0.01 0.02 10 4 = sqrt (1 / 2)"
proof -
  have a: "(0.01::real) * \<bar>1\<bar> / (2 * 0.02) = 0.25" by simp
  have o: "real (unat (4 :: 8 word)) = 4" by simp
  have n: "(4 :: 8 word) \<noteq> 1" by simp
  from sqrt_half_bounds have b: "\<not> sqrt (1 / 2 :: real) < 0.1" "\<not> sqrt (1 / 2 :: real) > 4"
    "\<not> \<bar>sqrt (1 / 2 :: real)\<bar> > 10"
    by simp_all
  show ?thesis
    unfolding AdaptiveUpdateStep_def Let_def a o
    using n b by (simp only: quarter_powr_quarter if_False mult_1_right)
qed

lemma spec_clamp_cases:
  "spec_clamp 0.1 4 x = (if x < 0.1 then 0.1 else if x > 4 then 4 else x)"
  unfolding spec_clamp_def max_def min_def by (cases "x < 0.1"; cases "x > 4") auto

lemma saturate_cases:
  "0 \<le> mx \<Longrightarrow>
   (if \<bar>x\<bar> > mx then (if x > 0 then mx else - mx) else x) = spec_saturate mx x"
  unfolding spec_saturate_def sgn_real_def min_def
  by (cases "x > 0"; cases "x = 0"; cases "\<bar>x\<bar> > mx") simp_all

lemma AdaptiveUpdateStep_spec:
  assumes "0 \<le> mx" "err \<noteq> 0" "order \<noteq> 0" "order = 1 \<or> 0 \<le> tol / err"
  shows "AdaptiveUpdateStep step tol err mx order
         = spec_saturate mx (spec_q step tol err order * step)"
proof -
  define adjust where "adjust = tol * \<bar>step\<bar> / (2 * err)"
  define q0 where "q0 = (if order = 1 then adjust else adjust powr (1 / real (unat order)))"
  define q where "q = (if q0 < 0.1 then 0.1 else if q0 > 4 then 4 else q0)"
  have "spec_q step tol err order = spec_clamp 0.1 4 q0"
    by (simp only: spec_q_def q0_def adjust_def)
  also have "\<dots> = q"
    unfolding q_def by (rule spec_clamp_cases)
  finally have q: "spec_q step tol err order = q" .
  have "AdaptiveUpdateStep step tol err mx order
        = (if \<bar>q * step\<bar> > mx then (if q * step > 0 then mx else - mx) else q * step)"
    unfolding AdaptiveUpdateStep_def Let_def q_def q0_def adjust_def by (rule refl)
  also have "\<dots> = spec_saturate mx (q * step)"
    using assms(1) by (rule saturate_cases)
  finally show ?thesis by (simp only: q)
qed

text \<open>
  C8.  Where the error and the order are not zero, \<open>tol / err\<close> is not negative unless
  the order is one, and the maximum is not negative, \<^const>\<open>AdaptiveUpdateStep\<close> returns
  \<open>q * step\<close> saturated in magnitude at the maximum and with its sign kept, where \<open>q\<close>
  is the ratio \<open>tol * |step| / (2 * err)\<close> for order one and that ratio to the
  power \<open>1/order\<close> otherwise, clamped to \<open>[0.1, 4]\<close>; at \<open>(1, 0.01, 0.02, 10, 4)\<close> the
  result is \<open>0.25 ^ 0.25\<close>, which lies within \<open>0.001\<close> of \<open>0.707\<close>.
\<close>

theorem AdaptiveUpdateStep_rule:
  "(0 \<le> mx \<and> err \<noteq> 0 \<and> order \<noteq> 0 \<and> (order = 1 \<or> 0 \<le> tol / err) \<longrightarrow>
      AdaptiveUpdateStep step tol err mx order
        = spec_saturate mx (spec_q step tol err order * step))
   \<and> AdaptiveUpdateStep 1 0.01 0.02 10 4 = 0.25 powr 0.25
   \<and> \<bar>AdaptiveUpdateStep 1 0.01 0.02 10 4 - 0.707\<bar> < 0.001"
proof -
  have e: "(0.25::real) powr 0.25 = sqrt (1 / 2)"
    using quarter_powr_quarter by simp
  have n: "\<bar>sqrt (1 / 2 :: real) - 0.707\<bar> < 0.001"
    using sqrt_half_bounds by (simp add: abs_less_iff)
  have g: "0 \<le> mx \<and> err \<noteq> 0 \<and> order \<noteq> 0 \<and> (order = 1 \<or> 0 \<le> tol / err) \<longrightarrow>
      AdaptiveUpdateStep step tol err mx order
        = spec_saturate mx (spec_q step tol err order * step)"
    using AdaptiveUpdateStep_spec [of mx err order tol step] by blast
  from g n show ?thesis
    by (simp only: AdaptiveUpdateStep_example e simp_thms)
qed

theorem AdaptiveUpdateStep_rule_witness:
  "(0::real) \<le> 10 \<and> (0.02::real) \<noteq> 0 \<and> (4 :: 8 word) \<noteq> 0 \<and> (0::real) \<le> 0.01 / 0.02
   \<and> AdaptiveUpdateStep 1 0.01 0.02 10 4 = spec_saturate 10 (spec_q 1 0.01 0.02 4 * 1)"
proof -
  have h: "(0::real) \<le> 10" "(0.02::real) \<noteq> 0" "(4 :: 8 word) \<noteq> 0" "(0::real) \<le> 0.01 / 0.02"
    by simp_all
  from AdaptiveUpdateStep_rule [of 10 "0.02" 4 "0.01" 1] h show ?thesis by blast
qed

subsection \<open>Fixed-step update functions\<close>

lemma upd_each_single:
  "upd_each (Suc 0) f [x] = ebind (f 0 x) (\<lambda>z. Inr [z])"
  by (simp add: upd_each_def ebind_def idx_def split: sum.splits)

lemma eulerStep_reports_failure:
  "\<not> snd (Derivative ivp (Start ivp)) \<Longrightarrow> eulerStep ivp h = Inr (ivp, False)"
  by (cases "Derivative ivp (Start ivp)") (simp add: eulerStep_def)

lemma RK4Step_reports_first_failure:
  "\<not> snd (Derivative ivp (Start ivp)) \<Longrightarrow> rk4Step ivp h = Inr (ivp, False)"
  by (cases "Derivative ivp (Start ivp)") (simp add: rk4Step_def RK4Step_def ebind_def)

text \<open>
  C6.  The modified Euler step does not report a domain failure of its second
  derivative evaluation: on \<^const>\<open>edge_ivp\<close> with \<open>h = 1\<close> the evaluation at the
  predicted point \<open>(1, [1])\<close> reports failure, and the step still returns success, having
  used the vector that came with the failure.
\<close>

theorem modEulerStep_ignores_failure:
  "snd (Derivative edge_ivp \<lparr>Time = 1, Value = [1]\<rparr>) = False
   \<and> modEulerStep edge_ivp 1 = Inr (set_Value edge_ivp [1 / 2], True)"
  by (simp add: modEulerStep_def edge_ivp_def upd_each_single ebind_def idx_def set_Value_def)

subsection \<open>Dense solutions\<close>

lemma search_dense4_no_result:
  assumes "search d t mn mx = Some y"
  shows "\<not> (d = dense4 \<and> t = 3 \<and> mn = 1 \<and> mx = 3)"
  apply (rule search.raw_induct
      [where P = "\<lambda>d t mn mx y. \<not> (d = dense4 \<and> t = 3 \<and> mn = 1 \<and> mx = 3)", OF _ assms])
  subgoal premises prems for f d time mn mx y
  proof
    assume a: "d = dense4 \<and> time = 3 \<and> mn = 1 \<and> mx = 3"
    from prems(2) a have "f dense4 3 1 3 = Some y"
      by (simp add: dense4_def idxi_def signed_divide_int_def)
    with prems(1) show False by blast
  qed
  done

lemma search_dense4_1_3: "search dense4 3 1 3 = None"
  using search_dense4_no_result [of dense4 3 1 3] by (cases "search dense4 3 1 3") auto

lemma search_dense4_0_3: "search dense4 3 0 3 = search dense4 3 1 3"
  by (subst search.simps) (simp add: dense4_def idxi_def signed_divide_int_def)

lemma dense4_facts:
  "DenseSolution_Start dense4 = Inr 0" "DenseSolution_End dense4 = Inr 3"
  "int (length (points dense4)) - 1 = 3"
  by (simp_all add: DenseSolution_Start_def DenseSolution_End_def dense4_def idxi_def ebind_def)

text \<open>
  C3.  \<^verbatim>\<open>Get\<close> does not return at every stored point: in \<^const>\<open>dense4\<close>, whose
  four points have increasing times, the point \<open>(3, [3])\<close> is stored, and the call
  \<open>Get 3\<close> recurses for ever, because \<^verbatim>\<open>search\<close> takes \<open>(max - min) / 2\<close> as the middle
  index and so calls itself with the same arguments \<open>(1, 3)\<close>.
\<close>

theorem DenseSolution_Get_diverges:
  "\<lparr>Time = 3, Value = [3]\<rparr> \<in> set (points dense4)
   \<and> sorted_wrt (\<lambda>p q. Time p < Time q) (points dense4)
   \<and> DenseSolution_Get dense4 3 = None"
proof -
  have "DenseSolution_Get dense4 3 = None"
    by (simp add: DenseSolution_Get_def dense4_facts search_dense4_0_3 search_dense4_1_3)
  then show ?thesis by (simp add: dense4_def)
qed

lemma zero_backward_Next:
  "Stepper_Next (zero_backward t)
   = Some (Inr (Some \<lparr>Time = t - 1, Value = [0]\<rparr>, zero_backward (t - 1)))"
  by (simp add: zero_backward_def Stepper_Next_def fixedStepper_Next_def
      fixedStepper_NextStep_def eulerStep_def upd_each_single ebind_def idx_def add_Time_def
      set_Value_def)

lemma Euler_Backward_zero: "Backward (Euler 1) zero_ivp = zero_backward 0"
  by (simp add: Euler_def FixedStepMethod_Method_def FixedStepMethod_Backward_def zero_ivp_def
      IVP_Clone_def Point_Clone_def zero_backward_def)

lemma collect_two_backward:
  "collect_loop (\<lambda>t. - 2 < t) (zero_backward 0) (Start zero_ivp) [] =
   Some (Inr ([\<lparr>Time = - 1, Value = [0]\<rparr>, \<lparr>Time = - 2, Value = [0]\<rparr>], zero_backward (- 2)))"
  apply (subst collect_loop.simps)
  apply (simp add: zero_ivp_def zero_backward_Next Point_Clone_def)
  apply (subst collect_loop.simps)
  apply (simp add: zero_backward_Next Point_Clone_def)
  apply (subst collect_loop.simps)
  apply simp
  done

lemma reverse_loop_panics:
  assumes "2 \<le> length xs"
  shows "reverse_loop xs = Inl IndexOutOfRange"
proof -
  from assms have "0 < length xs div 2" by simp
  then have "[0..<length xs div 2] = 0 # [1..<length xs div 2]"
    by (simp add: upt_conv_Cons)
  then show ?thesis
    by (simp add: reverse_loop_def swap_at_def idx_def ebind_def)
qed

text \<open>
  C9.  \<^verbatim>\<open>DenseSolve\<close> with the Euler method of step \<open>1\<close> on \<^const>\<open>zero_ivp\<close> and the
  interval \<open>[-2, 0]\<close> collects the two backward points at the times \<open>-1\<close> and \<open>-2\<close>; the
  reversal loop then reads \<^verbatim>\<open>points[size-0]\<close>, one past the end, and the call panics
  instead of returning an increasing sequence.
\<close>

theorem DenseSolve_two_backward_points_panics:
  "DenseSolve (Euler 1) zero_ivp (- 2) 0 LinearInterpolator = Some (Inl IndexOutOfRange)"
  unfolding DenseSolve_def Let_def Euler_Backward_zero
  by (simp add: collect_two_backward reverse_loop_panics) (simp add: zero_ivp_def)

subsection \<open>Adams-Bashford\<close>

lemma RK4Step_unit:
  "RK4Step \<lparr>Derivative = (\<lambda>p. ([1], True)), Start = \<lparr>Time = t, Value = [x]\<rparr>\<rparr> 2
   = Inr (\<lparr>Derivative = (\<lambda>p. ([1], True)), Start = \<lparr>Time = t, Value = [x + 2]\<rparr>\<rparr>, [2], True)"
  by (simp add: RK4Step_def Let_def scale_by_def upd_each_single ebind_def idx_def set_Value_def)

lemma list4_update:
  "[a, b, c, d][3 := x] = [a, b, c, x]" "[a, b, c, d][2 := x] = [a, b, x, d]"
  "[a, b, c, d][1 := x] = [a, x, c, d]" "[a, b, c, d][0 := x] = [x, b, c, d]"
  by (simp_all add: eval_nat_numeral)

lemma unit_stepper_start:
  "adamsBashford_Forward 2 unit_ivp = unit_stepper [no_Step, no_Step, no_Step, fresh 0] 0 0 3"
  by (simp add: adamsBashford_Forward_def adamsBashford_withStep_def unit_ivp_def IVP_Clone_def
      Point_Clone_def go_copy_def unit_stepper_def no_Step_def fresh_def list4_update
      numeral_eq_Suc)

lemma unit_stepper_bootstrap:
  assumes "i \<noteq> 0" "unat i = n" "n < 4" "length ss = 4"
  shows "adamsBashfordStepper_Next (unit_stepper ss t x i) =
     Inr (Some \<lparr>Time = t + 2, Value = [x + 2]\<rparr>,
          unit_stepper
            (ss[n := (ss ! n)\<lparr>Step_Deriv := [2]\<rparr>,
                n - 1 := (ss[n := (ss ! n)\<lparr>Step_Deriv := [2]\<rparr>] ! (n - 1))\<lparr>Step_Value := [x + 2]\<rparr>])
            (t + 2) (x + 2) (i - 1))"
  using assms
  apply (simp add: unit_stepper_def adamsBashfordStepper_Next_def
      adamsBashfordStepper_NextStep_def RK4Step_unit ebind_def add_Time_def set_Deriv_def
      set_StepValue_def idx_def go_copy_def Let_def)
  apply (simp add: unat_minus_one)
  done

lemma unit_Next1:
  "adamsBashfordStepper_Next (unit_stepper [no_Step, no_Step, no_Step, fresh 0] 0 0 3)
   = Inr (Some \<lparr>Time = 2, Value = [2]\<rparr>,
          unit_stepper [no_Step, no_Step, fresh 2, hist 0 2] 2 2 2)"
  by (subst unit_stepper_bootstrap [where n = 3])
     (simp_all add: list4_update no_Step_def fresh_def hist_def)

lemma unit_Next2:
  "adamsBashfordStepper_Next (unit_stepper [no_Step, no_Step, fresh 2, hist 0 2] 2 2 2)
   = Inr (Some \<lparr>Time = 4, Value = [4]\<rparr>,
          unit_stepper [no_Step, fresh 4, hist 2 2, hist 0 2] 4 4 1)"
  by (subst unit_stepper_bootstrap [where n = 2])
     (simp_all add: list4_update no_Step_def fresh_def hist_def)

lemma unit_Next3:
  "adamsBashfordStepper_Next (unit_stepper [no_Step, fresh 4, hist 2 2, hist 0 2] 4 4 1)
   = Inr (Some \<lparr>Time = 6, Value = [6]\<rparr>,
          unit_stepper [fresh 6, hist 4 2, hist 2 2, hist 0 2] 6 6 0)"
  by (subst unit_stepper_bootstrap [where n = 1])
     (simp_all add: list4_update no_Step_def fresh_def hist_def)

lemma adamsBashfordStep_unit:
  "adamsBashfordStep [hist 6 1, hist 4 2, hist 2 2, hist 0 2] 2 = Inr [65 / 12]"
  by (simp add: adamsBashfordStep_def Implicit_def hist_def upt_rec [of 0 4] upt_rec [of 1 4]
      upt_rec [of 2 4] upt_rec [of 3 4] upd_each_single ebind_def idx_def)

lemma Shift4: "Shift [a, b, c, d] = [a, a, b, c]"
  by (simp add: Shift_def upt_rec [of 1 4] upt_rec [of 2 4] upt_rec [of 3 4] eval_nat_numeral)

lemma unit_Next4:
  "adamsBashfordStepper_Next (unit_stepper [fresh 6, hist 4 2, hist 2 2, hist 0 2] 6 6 0)
   = Inr (Some \<lparr>Time = 8, Value = [65 / 12]\<rparr>,
          unit_stepper [hist (65 / 12) 1, hist 6 1, hist 4 2, hist 2 2] 8 (65 / 12) 0)"
proof -
  have d: "set_Deriv [fresh 6, hist 4 2, hist 2 2, hist 0 2] 0 [1]
           = Inr [hist 6 1, hist 4 2, hist 2 2, hist 0 2]"
    by (simp add: set_Deriv_def idx_def ebind_def fresh_def hist_def)
  have v: "set_StepValue [hist 6 1, hist 6 1, hist 4 2, hist 2 2] 0 [65 / 12]
           = Inr [hist (65 / 12) 1, hist 6 1, hist 4 2, hist 2 2]"
    by (simp add: set_StepValue_def idx_def ebind_def hist_def)
  show ?thesis
    by (simp add: unit_stepper_def adamsBashfordStepper_Next_def
        adamsBashfordStepper_NextStep_def d v ebind_def adamsBashfordStep_unit Shift4
        add_Time_def set_Value_def)
qed

text \<open>
  C5.  On \<open>x' = 1, x(0) = 0\<close> with \<open>h = 2\<close> the first three calls of \<^verbatim>\<open>Next\<close> return the
  RK4 points \<open>(2, [2])\<close>, \<open>(4, [4])\<close> and \<open>(6, [6])\<close>, and the fourth returns \<open>65/12\<close> at
  time \<open>8\<close>, not \<open>x3 + h (55 f3 - 59 f2 + 37 f1 - 9 f0) / 24 = 8\<close>: the history holds the
  slice returned by \<^verbatim>\<open>RK4Step\<close>, which is \<open>h\<close> times the derivative, so the three
  bootstrap derivatives enter the formula multiplied by \<open>h\<close> once more.
\<close>

theorem adamsBashford_fourth_point:
  "map_sum id fst (adamsBashfordStepper_Next (adamsBashford_Forward 2 unit_ivp))
     = Inr (Some \<lparr>Time = 2, Value = [2]\<rparr>)
   \<and> map_sum id fst (and_Next (adamsBashfordStepper_Next (adamsBashford_Forward 2 unit_ivp)))
     = Inr (Some \<lparr>Time = 4, Value = [4]\<rparr>)
   \<and> map_sum id fst
       (and_Next (and_Next (adamsBashfordStepper_Next (adamsBashford_Forward 2 unit_ivp))))
     = Inr (Some \<lparr>Time = 6, Value = [6]\<rparr>)
   \<and> map_sum id fst
       (and_Next (and_Next (and_Next
          (adamsBashfordStepper_Next (adamsBashford_Forward 2 unit_ivp)))))
     = Inr (Some \<lparr>Time = 8, Value = [65 / 12]\<rparr>)
   \<and> (65 / 12 :: real) \<noteq> 6 + 2 * (55 * 1 - 59 * 1 + 37 * 1 - 9 * 1) / 24"
  by (simp add: unit_stepper_start unit_Next1 unit_Next2 unit_Next3 unit_Next4 and_Next_def
      ebind_def)

subsection \<open>Counted loops\<close>

lemma ebind_Inr [simp]: "ebind (Inr x) f = f x"
  by (simp add: ebind_def)

lemma ebind_Inl [simp]: "ebind (Inl e) f = Inl e"
  by (simp add: ebind_def)

lemma for_each_Inr:
  "for_each js body s = Inr r \<Longrightarrow> i \<in> set js \<Longrightarrow> \<exists>s1 s2. body i s1 = Inr s2"
proof (induction js arbitrary: s)
  case Nil
  then show ?case by simp
next
  case (Cons j js)
  then show ?case
    by (cases "body j s") auto
qed

lemma for_each_append:
  "for_each (xs @ ys) body s = ebind (for_each xs body s) (for_each ys body)"
  by (induction xs arbitrary: s) (auto simp: ebind_def split: sum.splits)

lemma upd_each_total:
  assumes "\<And>i x. i < n \<Longrightarrow> \<exists>z. f i x = Inr z" "n \<le> length xs"
  shows "\<exists>ys. upd_each n f xs = Inr ys \<and> length ys = length xs"
  using assms
proof (induction n)
  case 0
  then show ?case by (simp add: upd_each_def)
next
  case (Suc n)
  then obtain ys where ys: "upd_each n f xs = Inr ys" "length ys = length xs"
    by (metis Suc_leD less_Suc_eq)
  from Suc.prems(1) [of n "ys ! n"] obtain z where z: "f n (ys ! n) = Inr z" by auto
  from ys Suc.prems(2) z show ?case
    by (simp add: upd_each_def for_each_append idx_def)
qed

subsection \<open>Adaptive steppers going backward\<close>

lemma adaptive_backward_exhausts:
  assumes "0 < am_Hmin m" "am_Hmin m \<le> am_Step m"
  shows "Stepper_Next (AdaptiveStepMethod_Backward m ivp)
         = Some (Inr (None, AdaptiveStepMethod_Backward m ivp))"
proof -
  let ?s = "st (AdaptiveStepMethod_Backward m ivp)"
  have lt: "\<not> as_hmin ?s \<le> as_step ?s"
    using assms by (simp add: AdaptiveStepMethod_Backward_def toStepper_def)
  have "adaptive_loop (enter_Next ?s) = Some (Inr (None, ?s))"
    by (subst adaptive_loop.simps) (use lt in \<open>simp add: enter_Next_def Let_def\<close>)
  then show ?thesis
    by (simp add: Stepper_Next_def adaptiveStepper_Next_def AdaptiveStepMethod_Backward_def
        toStepper_def)
qed

lemma rkFehlberg_backward_exhausts:
  assumes "0 < rm_hmin m" "rm_hmin m \<le> rm_step m"
  shows "Stepper_Next (rkFehlberg_Backward m ivp)
         = Some (Inr (None, rkFehlberg_Backward m ivp))"
proof -
  let ?s = "st (rkFehlberg_Backward m ivp)"
  have lt: "\<not> rk_hmin ?s \<le> rk_step ?s"
    using assms by (simp add: rkFehlberg_Backward_def rkFehlberg_withStep_def)
  have "rkFehlbergStepper_Next ?s = Some (Inr (None, ?s))"
    by (subst rkFehlbergStepper_Next.simps) (use lt in simp)
  then show ?thesis
    by (simp add: Stepper_Next_def rkFehlberg_Backward_def rkFehlberg_withStep_def)
qed

lemma eulerStep_zero:
  "eulerStep \<lparr>Derivative = (\<lambda>p. ([0], True)), Start = \<lparr>Time = t, Value = [x]\<rparr>\<rparr> h
   = Inr (\<lparr>Derivative = (\<lambda>p. ([0], True)), Start = \<lparr>Time = t, Value = [x]\<rparr>\<rparr>, True)"
  by (simp add: eulerStep_def upd_each_single idx_def set_Value_def)

lemma backward_getSteps:
  "getSteps (enter_Next (st (AdaptiveStepMethod_Backward (AdaptiveEuler 1 1 (1 / 2) 2) zero_ivp)))
   = Inr (enter_Next (st (AdaptiveStepMethod_Backward (AdaptiveEuler 1 1 (1 / 2) 2) zero_ivp)),
          True)"
  by (simp add: AdaptiveStepMethod_Backward_def AdaptiveEuler_def toStepper_def zero_ivp_def
      IVP_Clone_def Point_Clone_def enter_Next_def getSteps_def Let_def store_def point_to_def
      buf_def go_copy_def set_state_Value_def set_Value_def call_method_def eulerStep_zero)

lemma backward_richardson_err:
  "richardson_err
     (enter_Next (st (AdaptiveStepMethod_Backward (AdaptiveEuler 1 1 (1 / 2) 2) zero_ivp)))
   = Inr 0"
  by (simp add: AdaptiveStepMethod_Backward_def AdaptiveEuler_def toStepper_def zero_ivp_def
      IVP_Clone_def Point_Clone_def enter_Next_def richardson_err_def sq_diff_def idx_def)

lemma backward_rkf_stages:
  "rkf_stages (st (rkFehlberg_Backward (RKFehlberg 1 1 (1 / 2) 2) zero_ivp))
   = Inr (Some [[0], [0], [0], [0], [0], [0]])"
  by (simp add: rkFehlberg_Backward_def rkFehlberg_withStep_def RKFehlberg_def zero_ivp_def
      Point_Clone_def rkf_stages_def rkf_stage_def scale_by_def upd_each_single idx_def Let_def)

lemma backward_rkf_error:
  "rkf_error [[0], [0], [0], [0], [0], [0]]
     (Value (rk_current (st (rkFehlberg_Backward (RKFehlberg 1 1 (1 / 2) 2) zero_ivp))))
   = Inr 0"
  by (simp add: rkFehlberg_Backward_def rkFehlberg_withStep_def RKFehlberg_def zero_ivp_def
      Point_Clone_def rkf_error_def idx_def)

text \<open>
  C1.  With tolerance \<open>1\<close>, step \<open>1\<close>, minimum step \<open>1/2\<close> and maximum step \<open>2\<close> on
  \<^const>\<open>zero_ivp\<close>, the first backward trial succeeds with error estimate \<open>0\<close>, for the
  Richardson wrapper around Euler and for Runge-Kutta-Fehlberg alike; still the first
  \<^verbatim>\<open>Next\<close> of either backward stepper reports exhaustion and leaves the stepper as it
  was, because the loop guard compares the signed step \<open>-1\<close> with the minimum step.
\<close>

theorem adaptive_Backward_exhausts_at_once:
  "getSteps (enter_Next (st (AdaptiveStepMethod_Backward (AdaptiveEuler 1 1 (1 / 2) 2) zero_ivp)))
   = Inr (enter_Next (st (AdaptiveStepMethod_Backward (AdaptiveEuler 1 1 (1 / 2) 2) zero_ivp)),
          True)
   \<and> richardson_err
       (enter_Next (st (AdaptiveStepMethod_Backward (AdaptiveEuler 1 1 (1 / 2) 2) zero_ivp)))
     = Inr 0
   \<and> Stepper_Next (AdaptiveStepMethod_Backward (AdaptiveEuler 1 1 (1 / 2) 2) zero_ivp)
     = Some (Inr (None, AdaptiveStepMethod_Backward (AdaptiveEuler 1 1 (1 / 2) 2) zero_ivp))
   \<and> rkf_stages (st (rkFehlberg_Backward (RKFehlberg 1 1 (1 / 2) 2) zero_ivp))
     = Inr (Some [[0], [0], [0], [0], [0], [0]])
   \<and> rkf_error [[0], [0], [0], [0], [0], [0]]
       (Value (rk_current (st (rkFehlberg_Backward (RKFehlberg 1 1 (1 / 2) 2) zero_ivp))))
     = Inr 0
   \<and> Stepper_Next (rkFehlberg_Backward (RKFehlberg 1 1 (1 / 2) 2) zero_ivp)
     = Some (Inr (None, rkFehlberg_Backward (RKFehlberg 1 1 (1 / 2) 2) zero_ivp))"
proof -
  have a: "Stepper_Next (AdaptiveStepMethod_Backward (AdaptiveEuler 1 1 (1 / 2) 2) zero_ivp)
     = Some (Inr (None, AdaptiveStepMethod_Backward (AdaptiveEuler 1 1 (1 / 2) 2) zero_ivp))"
    by (rule adaptive_backward_exhausts) (simp_all add: AdaptiveEuler_def)
  have r: "Stepper_Next (rkFehlberg_Backward (RKFehlberg 1 1 (1 / 2) 2) zero_ivp)
     = Some (Inr (None, rkFehlberg_Backward (RKFehlberg 1 1 (1 / 2) 2) zero_ivp))"
    by (rule rkFehlberg_backward_exhausts) (simp_all add: RKFehlberg_def)
  from a r show ?thesis
    by (simp only: backward_getSteps backward_richardson_err backward_rkf_stages
        backward_rkf_error simp_thms)
qed

subsection \<open>Acceptance of a Runge-Kutta-Fehlberg trial\<close>

lemma rkf_error_Inr_lengths:
  assumes "rkf_error ks val = Inr e" "i < length val"
  shows "i < length (ks ! 0) \<and> i < length (ks ! 2) \<and> i < length (ks ! 3)
         \<and> i < length (ks ! 4) \<and> i < length (ks ! 5)"
proof -
  from assms(1) obtain q where
    "for_each [0..<length val]
       (\<lambda>i sqerr. ebind (idx (ks ! 0) i) (\<lambda>a. ebind (idx (ks ! 2) i) (\<lambda>c.
          ebind (idx (ks ! 3) i) (\<lambda>d. ebind (idx (ks ! 4) i) (\<lambda>e. ebind (idx (ks ! 5) i)
          (\<lambda>f. let v = a / 360 - 128 * c / 4275 - 2197 * d / 75240 + e / 50 + 2 * f / 55
               in Inr (sqerr + v * v))))))) 0 = Inr q"
    unfolding rkf_error_def ebind_def by (auto split: sum.splits)
  from for_each_Inr [OF this, of i] assms(2) show ?thesis
    by (auto simp: idx_def ebind_def split: if_splits)
qed

lemma rkf_update_total:
  assumes "rkf_error ks val = Inr e"
  shows "\<exists>v. rkf_update ks val = Inr v"
proof -
  have "\<exists>ys. rkf_update ks val = Inr ys \<and> length ys = length val"
    unfolding rkf_update_def
  proof (rule upd_each_total)
    fix i x assume "i < length val"
    from rkf_error_Inr_lengths [OF assms this]
    show "\<exists>z. ebind (idx (ks ! 0) i) (\<lambda>a. ebind (idx (ks ! 2) i) (\<lambda>c.
          ebind (idx (ks ! 3) i) (\<lambda>d. ebind (idx (ks ! 4) i)
          (\<lambda>e. Inr (x + (25 * a / 216 + 1408 * c / 2565 + 2197 * d / 4104 - e / 5)))))) = Inr z"
      by (simp add: idx_def)
  qed simp
  then show ?thesis by blast
qed

lemma spike_rkf_stages: "rkf_stages (spike_stepper tol) = Inr (Some spike_stages)"
  by (simp add: spike_stepper_def spike_stages_def rkf_stages_def rkf_stage_def scale_by_def
      upd_each_single idx_def Let_def)

lemma spike_rkf_error:
  "rkf_error spike_stages (Value (rk_current (spike_stepper tol))) = Inr 1"
  by (simp add: spike_stepper_def spike_stages_def rkf_error_def idx_def Let_def)

lemma spike_rkf_update:
  "rkf_update spike_stages (Value (rk_current (spike_stepper tol))) = Inr [0]"
  by (simp add: spike_stepper_def spike_stages_def rkf_update_def idx_def upd_each_single)

lemma spike_Next:
  "map_option (map_sum id fst) (rkFehlbergStepper_Next (spike_stepper 1))
   = Some (Inr (Some \<lparr>Time = 1 / 2, Value = [0]\<rparr>))"
  apply (subst rkFehlbergStepper_Next.simps)
  apply (simp add: rkf_trial_def spike_rkf_stages spike_rkf_error spike_rkf_update)
  apply (simp add: spike_stepper_def)
  done

text \<open>
  C4, as stated, fails.  On \<^term>\<open>spike_stepper 1\<close> the six stages succeed and the error
  estimate is \<open>1\<close>, which exceeds \<open>tolerance * |h| = 1/2\<close>; the trial is accepted all the
  same, and \<^verbatim>\<open>Next\<close> returns the point at time \<open>1/2\<close>.
\<close>

theorem rkf_accepts_above_scaled_tolerance:
  "rkf_stages (spike_stepper 1) = Inr (Some spike_stages)
   \<and> rkf_error spike_stages (Value (rk_current (spike_stepper 1))) = Inr 1
   \<and> \<not> (1 \<le> rk_tol (spike_stepper 1) * \<bar>rk_step (spike_stepper 1)\<bar>)
   \<and> map_option (map_sum id fst) (rkFehlbergStepper_Next (spike_stepper 1))
     = Some (Inr (Some \<lparr>Time = 1 / 2, Value = [0]\<rparr>))"
  by (simp add: spike_rkf_stages spike_rkf_error spike_Next) (simp add: spike_stepper_def)

text \<open>
  C4, amended.  When the step is not below the minimum, the six stages of a trial succeed
  and the error estimate computed from them is \<open>e\<close>, the trial is accepted exactly when
  \<open>e \<le> tolerance\<close> (the tolerance is not multiplied by \<open>|h|\<close>).  An accepted trial makes
  \<^verbatim>\<open>Next\<close> return the point one step later in time; a rejected trial leaves the current
  point, and so the time, as it was and replaces the step by
  \<open>AdaptiveUpdateStep step tolerance e hmax 4\<close>.  Both outcomes update the step by that
  rule, the one of the Richardson wrapper with \<open>k = 4\<close>.
\<close>

theorem rkf_acceptance:
  assumes "rk_hmin s \<le> rk_step s" "rkf_stages s = Inr (Some ks)"
    "rkf_error ks (Value (rk_current s)) = Inr e"
  shows "((\<exists>s'. rkf_trial s = Inr (Done s')) \<longleftrightarrow> e \<le> rk_tol s)
     \<and> (e \<le> rk_tol s \<longrightarrow>
          (\<exists>v. rkFehlbergStepper_Next s
                = Some (Inr (Some \<lparr>Time = Time (rk_current s) + rk_step s, Value = v\<rparr>,
                     s\<lparr>rk_current := \<lparr>Time = Time (rk_current s) + rk_step s, Value = v\<rparr>,
                       rk_step := AdaptiveUpdateStep (rk_step s) (rk_tol s) e (rk_hmax s) 4\<rparr>))))
     \<and> (rk_tol s < e \<longrightarrow>
          rkf_trial s = Inr (Retry (s\<lparr>rk_step :=
                               AdaptiveUpdateStep (rk_step s) (rk_tol s) e (rk_hmax s) 4\<rparr>)))"
proof -
  from rkf_update_total [OF assms(3)] obtain v where
    v: "rkf_update ks (Value (rk_current s)) = Inr v" by blast
  have rej: "rk_tol s < e \<Longrightarrow> rkf_trial s = Inr (Retry (s\<lparr>rk_step :=
                               AdaptiveUpdateStep (rk_step s) (rk_tol s) e (rk_hmax s) 4\<rparr>))"
    by (simp add: rkf_trial_def assms)
  have acc: "e \<le> rk_tol s \<Longrightarrow> rkf_trial s =
       Inr (Done (s\<lparr>rk_current := \<lparr>Time = Time (rk_current s) + rk_step s, Value = v\<rparr>,
                   rk_step := AdaptiveUpdateStep (rk_step s) (rk_tol s) e (rk_hmax s) 4\<rparr>))"
    by (simp add: rkf_trial_def assms v)
  have nxt: "e \<le> rk_tol s \<Longrightarrow> rkFehlbergStepper_Next s
                = Some (Inr (Some \<lparr>Time = Time (rk_current s) + rk_step s, Value = v\<rparr>,
                     s\<lparr>rk_current := \<lparr>Time = Time (rk_current s) + rk_step s, Value = v\<rparr>,
                       rk_step := AdaptiveUpdateStep (rk_step s) (rk_tol s) e (rk_hmax s) 4\<rparr>))"
    by (subst rkFehlbergStepper_Next.simps) (simp add: acc assms(1))
  have iff: "(\<exists>s'. rkf_trial s = Inr (Done s')) \<longleftrightarrow> e \<le> rk_tol s"
    using acc rej by (cases "e \<le> rk_tol s") auto
  from iff nxt rej show ?thesis by blast
qed

theorem rkf_acceptance_witness:
  "rk_hmin (spike_stepper 1) \<le> rk_step (spike_stepper 1)
   \<and> rkf_stages (spike_stepper 1) = Inr (Some spike_stages)
   \<and> rkf_error spike_stages (Value (rk_current (spike_stepper 1))) = Inr 1
   \<and> 1 \<le> rk_tol (spike_stepper 1)
   \<and> (\<exists>s'. rkf_trial (spike_stepper 1) = Inr (Done s'))
   \<and> rk_hmin (spike_stepper (1 / 2)) \<le> rk_step (spike_stepper (1 / 2))
   \<and> rkf_stages (spike_stepper (1 / 2)) = Inr (Some spike_stages)
   \<and> rkf_error spike_stages (Value (rk_current (spike_stepper (1 / 2)))) = Inr 1
   \<and> rk_tol (spike_stepper (1 / 2)) < 1
   \<and> rkf_trial (spike_stepper (1 / 2))
     = Inr (Retry ((spike_stepper (1 / 2))\<lparr>rk_step :=
          AdaptiveUpdateStep (rk_step (spike_stepper (1 / 2))) (rk_tol (spike_stepper (1 / 2))) 1
            (rk_hmax (spike_stepper (1 / 2))) 4\<rparr>))"
proof -
  have h1: "rk_hmin (spike_stepper 1) \<le> rk_step (spike_stepper 1)"
    and t1: "1 \<le> rk_tol (spike_stepper 1)"
    and h2: "rk_hmin (spike_stepper (1 / 2)) \<le> rk_step (spike_stepper (1 / 2))"
    and t2: "rk_tol (spike_stepper (1 / 2)) < 1"
    by (simp_all add: spike_stepper_def)
  from rkf_acceptance [OF h1 spike_rkf_stages spike_rkf_error]
    rkf_acceptance [OF h2 spike_rkf_stages spike_rkf_error]
    h1 h2 t1 t2 spike_rkf_stages spike_rkf_error
  show ?thesis by blast
qed

subsection \<open>Cached solutions\<close>

lemma unit_backward_Next:
  "Stepper_Next (unit_backward t)
   = Some (Inr (Some \<lparr>Time = t - 1, Value = [t - 1]\<rparr>, unit_backward (t - 1)))"
  by (simp add: unit_backward_def Stepper_Next_def fixedStepper_Next_def
      fixedStepper_NextStep_def eulerStep_def upd_each_single idx_def add_Time_def
      set_Value_def)

lemma Euler_Backward_unit: "Backward (Euler 1) unit_ivp = unit_backward 0"
  by (simp add: Euler_def FixedStepMethod_Method_def FixedStepMethod_Backward_def unit_ivp_def
      IVP_Clone_def Point_Clone_def unit_backward_def)

lemma stepped_back_facts:
  "CacheSolver_Start stepped_back = Inr (- 1)" "CacheSolver_End stepped_back = Inr 0"
  "lookup stepped_back (- 1) = Inr [- 1]"
  by (simp_all add: stepped_back_def CacheSolver_Start_def CacheSolver_End_def idx_def idxi_def
      lookup_def Linear_FindValue_def upd_each_single scan.simps)

lemma stepped_back_reached:
  "CacheSolver_Get (CacheSolve (Euler 1) unit_ivp LinearInterpolator []) (- 1) ()
   = Some (Inr (([- 1], True), stepped_back, ()))"
proof -
  have st: "Start unit_ivp = \<lparr>Time = 0, Value = [0]\<rparr>" by (simp add: unit_ivp_def)
  let ?c = "\<lparr>cs_backward = [], cs_forward = [\<lparr>Time = 0, Value = [0]\<rparr>],
      cs_backStep = Some (unit_backward 0), cs_forStep = Some (Forward (Euler 1) unit_ivp),
      cs_evs = [], cs_interp = LinearInterpolator\<rparr> :: (fixedStepper, unit) CacheSolver"
  have c: "CacheSolve (Euler 1) unit_ivp LinearInterpolator [] = ?c"
    by (simp add: CacheSolve_def Euler_Backward_unit st Point_Clone_def)
  have l2: "expandBackward_loop
       (\<lparr>cs_backward = [\<lparr>Time = - 1, Value = [- 1]\<rparr>],
         cs_forward = [\<lparr>Time = 0, Value = [0]\<rparr>],
         cs_backStep = Some (unit_backward 0), cs_forStep = Some (Forward (Euler 1) unit_ivp),
         cs_evs = [], cs_interp = LinearInterpolator\<rparr> :: (fixedStepper, unit) CacheSolver)
       (unit_backward (- 1)) (- 1) \<lparr>Time = - 1, Value = [- 1]\<rparr> [] ()
     = Some (Inr (True, stepped_back, ()))"
    by (subst expandBackward_loop.simps) (simp add: stepped_back_def)
  have l1: "expandBackward_loop ?c (unit_backward 0) (- 1) \<lparr>Time = 0, Value = [0]\<rparr> [] ()
     = Some (Inr (True, stepped_back, ()))"
    by (subst expandBackward_loop.simps)
       (simp add: unit_backward_Next getActions_def sort_actions_def Point_Clone_def l2)
  have e: "expandBackward ?c (- 1) () = Some (Inr (True, stepped_back, ()))"
    by (simp add: expandBackward_def idx_def initial_vals_def l1)
  have s: "CacheSolver_Start ?c = Inr 0"
    by (simp add: CacheSolver_Start_def idx_def)
  show ?thesis
    unfolding c by (simp add: CacheSolver_Get_def s e stepped_back_facts)
qed

lemma Get_covered:
  assumes "CacheSolver_Start c = Inr a" "CacheSolver_End c = Inr b" "a \<le> t" "t \<le> b"
  shows "CacheSolver_Get c t u = Some (map_sum id (\<lambda>x. ((x, True), c, u)) (lookup c t))"
  using assms by (simp add: CacheSolver_Get_def)

lemma lookup_steppers: "lookup (c\<lparr>cs_backStep := bs, cs_forStep := fs\<rparr>) t = lookup c t"
  unfolding lookup_def by (simp cong: if_cong)

text \<open>
  When the stored range covers \<open>t\<close>, \<^verbatim>\<open>Get(t)\<close> is the lookup in the stored lists and
  nothing else: it returns with the cache (both point lists and both steppers) and the
  caller's state unchanged, its outcome is the same whatever the two steppers are, so
  neither is invoked, and whenever it returns a value a second \<^verbatim>\<open>Get(t)\<close> returns the
  same value.
\<close>

lemma Get_covered_unchanged:
  assumes "CacheSolver_Start c = Inr a" "CacheSolver_End c = Inr b" "a \<le> t" "t \<le> b"
  shows "CacheSolver_Get c t u = Some (map_sum id (\<lambda>x. ((x, True), c, u)) (lookup c t))
     \<and> CacheSolver_Get (c\<lparr>cs_backStep := bs, cs_forStep := fs\<rparr>) t u
       = Some (map_sum id (\<lambda>x. ((x, True), c\<lparr>cs_backStep := bs, cs_forStep := fs\<rparr>, u))
                 (lookup c t))
     \<and> (\<forall>r c' u'. CacheSolver_Get c t u = Some (Inr (r, c', u')) \<longrightarrow>
           c' = c \<and> u' = u \<and> CacheSolver_Get c' t u' = Some (Inr (r, c', u')))"
proof -
  have g: "CacheSolver_Get c t u = Some (map_sum id (\<lambda>x. ((x, True), c, u)) (lookup c t))"
    by (rule Get_covered [OF assms])
  have "CacheSolver_Start (c\<lparr>cs_backStep := bs, cs_forStep := fs\<rparr>) = CacheSolver_Start c"
    "CacheSolver_End (c\<lparr>cs_backStep := bs, cs_forStep := fs\<rparr>) = CacheSolver_End c"
    by (simp_all add: CacheSolver_Start_def CacheSolver_End_def)
  with assms(1,2) have s: "CacheSolver_Start (c\<lparr>cs_backStep := bs, cs_forStep := fs\<rparr>) = Inr a"
    "CacheSolver_End (c\<lparr>cs_backStep := bs, cs_forStep := fs\<rparr>) = Inr b"
    by simp_all
  have g2: "CacheSolver_Get (c\<lparr>cs_backStep := bs, cs_forStep := fs\<rparr>) t u
       = Some (map_sum id (\<lambda>x. ((x, True), c\<lparr>cs_backStep := bs, cs_forStep := fs\<rparr>, u))
                 (lookup c t))"
    using Get_covered [OF s assms(3,4), of u] by (simp add: lookup_steppers)
  have h: "\<forall>r c' u'. CacheSolver_Get c t u = Some (Inr (r, c', u')) \<longrightarrow>
           c' = c \<and> u' = u \<and> CacheSolver_Get c' t u' = Some (Inr (r, c', u'))"
  proof (intro allI impI)
    fix r c' u'
    assume a: "CacheSolver_Get c t u = Some (Inr (r, c', u'))"
    with g have "map_sum id (\<lambda>x. ((x, True), c, u)) (lookup c t) = Inr (r, c', u')"
      by simp
    then have "c' = c \<and> u' = u"
      by (cases "lookup c t") simp_all
    with a show "c' = c \<and> u' = u \<and> CacheSolver_Get c' t u' = Some (Inr (r, c', u'))"
      by simp
  qed
  show ?thesis by (rule conjI [OF g conjI [OF g2 h]])
qed

lemma stepped_back_Get_again:
  "CacheSolver_Start stepped_back = Inr (- 1) \<and> CacheSolver_End stepped_back = Inr 0
   \<and> (- 1 :: real) \<le> - 1 \<and> (- 1 :: real) \<le> 0
   \<and> CacheSolver_Get stepped_back (- 1) () = Some (Inr (([- 1], True), stepped_back, ()))"
proof -
  have h: "(- 1 :: real) \<le> - 1" "(- 1 :: real) \<le> 0" by simp_all
  from Get_covered_unchanged [OF stepped_back_facts(1,2) h, of "()"] stepped_back_facts h
  show ?thesis by simp
qed

lemma lookup_stepped_back_initial: "lookup stepped_back 0 = Inl IndexOutOfRange"
  by (simp add: stepped_back_def lookup_def idx_def scan.simps)

text \<open>
  C7.  \<^verbatim>\<open>Get\<close> does not return a value at every covered time, so two calls cannot
  return identical values there.  After \<^verbatim>\<open>Get(-1)\<close> on the cache of the Euler method with
  step \<open>1\<close> for \<open>x' = 1, x(0) = 0\<close>, which returns \<open>[-1]\<close> and leaves the cache
  \<^const>\<open>stepped_back\<close>, the stored range is \<open>[-1, 0]\<close>; the call \<^verbatim>\<open>Get(0)\<close> at the initial
  time, which that range covers, expands nothing and panics in the lookup, whose scan of
  the forward list starts at index \<open>1\<close>, past its only element.
\<close>

theorem CacheSolver_Get_covered_panics:
  "CacheSolver_Get (CacheSolve (Euler 1) unit_ivp LinearInterpolator []) (- 1) ()
     = Some (Inr (([- 1], True), stepped_back, ()))
   \<and> CacheSolver_Start stepped_back = Inr (- 1)
   \<and> CacheSolver_End stepped_back = Inr 0
   \<and> CacheSolver_Get stepped_back 0 () = Some (Inl IndexOutOfRange)"
proof -
  have h: "(- 1 :: real) \<le> 0" "(0::real) \<le> 0" by simp_all
  have "CacheSolver_Get stepped_back 0 () = Some (Inl IndexOutOfRange)"
    using Get_covered [OF stepped_back_facts(1,2) h, of "()"]
    by (simp add: lookup_stepped_back_initial)
  then show ?thesis
    by (simp only: stepped_back_reached stepped_back_facts simp_thms)
qed

text \<open>
  C10.  On a freshly constructed cache the stored range is the single time \<open>0\<close>, and
  \<^verbatim>\<open>Get(0)\<close> starts its scan of the forward list at index \<open>1\<close>, past the only element: the
  call panics instead of returning the initial value.  Likewise on \<^const>\<open>stepped_back\<close>,
  whose range is \<open>[-1, 0]\<close>, \<^verbatim>\<open>Get(-1/2)\<close> runs its scan off the end of the backward list.
\<close>

theorem CacheSolver_Get_fresh_panics:
  "CacheSolver_Start (CacheSolve (Euler 1) zero_ivp LinearInterpolator []
       :: (fixedStepper, unit) CacheSolver) = Inr 0
   \<and> CacheSolver_End (CacheSolve (Euler 1) zero_ivp LinearInterpolator []
       :: (fixedStepper, unit) CacheSolver) = Inr 0
   \<and> CacheSolver_Get (CacheSolve (Euler 1) zero_ivp LinearInterpolator []) 0 ()
     = Some (Inl IndexOutOfRange)
   \<and> CacheSolver_Get stepped_back (- 1 / 2) () = Some (Inl IndexOutOfRange)"
proof -
  have "lookup stepped_back (- 1 / 2) = Inl IndexOutOfRange"
    by (simp add: stepped_back_def lookup_def idx_def scan.simps)
  moreover have "(- 1 :: real) \<le> - 1 / 2" "(- 1 / 2 :: real) \<le> 0" by simp_all
  ultimately have "CacheSolver_Get stepped_back (- 1 / 2) () = Some (Inl IndexOutOfRange)"
    using Get_covered [OF stepped_back_facts(1,2), of "- 1 / 2" "()"] by simp
  then show ?thesis
    by (simp add: CacheSolver_Get_def CacheSolve_def CacheSolver_Start_def CacheSolver_End_def
        idx_def idxi_def Point_Clone_def lookup_def scan.simps zero_ivp_def)
qed

subsection \<open>Events and StepUntil\<close>

lemma euler_at_Next:
  "Stepper_Next (euler_at h t)
   = Some (Inr (Some \<lparr>Time = t + h, Value = [t + h]\<rparr>, euler_at h (t + h)))"
  by (simp add: euler_at_def unit_from_def Stepper_Next_def fixedStepper_Next_def
      fixedStepper_NextStep_def eulerStep_def upd_each_single idx_def add_Time_def
      set_Value_def mult.commute)

lemma back3: "Backward (Euler 3) (unit_from 3) = euler_at (- 3) 3"
  by (simp add: Euler_def FixedStepMethod_Method_def FixedStepMethod_Backward_def unit_from_def
      IVP_Clone_def Point_Clone_def euler_at_def)

lemma fwd4: "Forward (Euler 4) (unit_from 0) = euler_at 4 0"
  by (simp add: Euler_def FixedStepMethod_Method_def FixedStepMethod_Forward_def unit_from_def
      IVP_Clone_def Point_Clone_def euler_at_def)

lemma Linear_FindValue_line:
  assumes "a \<noteq> b"
  shows "Linear_FindValue \<lparr>Time = a, Value = [a]\<rparr> \<lparr>Time = b, Value = [b]\<rparr> t = Inr [t]"
proof -
  define r where "r = (t - a) / (b - a)"
  from assms have "(b - a) * r = t - a" by (simp add: r_def)
  then have "a * (1 - r) + b * r = t" by (simp add: algebra_simps)
  then show ?thesis
    by (simp add: Linear_FindValue_def upd_each_single idx_def r_def)
qed

lemma Cross_time_event: "Cross (time_event z tol go) p = Time p - z"
  by (simp add: time_event_def)

lemma find_back:
  "\<bar>3 / 2 - z\<bar> < tol \<Longrightarrow> FindPoint (time_event z tol go) LinearInterpolator \<lparr>Time = 3, Value = [3]\<rparr> \<lparr>Time = 0, Value = [0]\<rparr>
   = Some (Inr \<lparr>Time = 3 / 2, Value = [3 / 2]\<rparr>)"
  unfolding FindPoint_def
  apply simp
  apply (subst FindPoint_loop.simps)
  apply (simp add: Linear_FindValue_line time_event_def Let_def)
  done

lemma upt2: "[0..<2] = [0, 1]" by (simp add: upt_rec)

lemma detect_back:
  "detect [time_event 1 1 True, time_event 2 1 True] LinearInterpolator
     \<lparr>Time = 3, Value = [3]\<rparr> \<lparr>Time = 0, Value = [0]\<rparr> [0, Suc 0] [2, 1] []
   = Some (Inr ([\<lparr>ra_index = 0, ra_point = \<lparr>Time = 3 / 2, Value = [3 / 2]\<rparr>\<rparr>,
                 \<lparr>ra_index = Suc 0, ra_point = \<lparr>Time = 3 / 2, Value = [3 / 2]\<rparr>\<rparr>], [- 1, - 2]))"
  by (simp add: idx_def Cross_time_event differentSign_def find_back)

lemma StepUntil_backward_panics:
  "StepUntil (Backward (Euler 3) (unit_from 3)) (Start (unit_from 3)) LinearInterpolator (Some (\<lambda>u p. u))
   [time_event 1 1 True, time_event 2 1 True] [] = Some (Inl IndexOutOfRange)"
proof -
  have st: "Start (unit_from 3) = \<lparr>Time = 3, Value = [3]\<rparr>" by (simp add: unit_from_def)
  have n: "Stepper_Next (euler_at (- 3) 3) = Some (Inr (Some \<lparr>Time = 0, Value = [0]\<rparr>, euler_at (- 3) 0))"
    using euler_at_Next [of "- 3" 3] by simp
  have l: "[0..<length [time_event 1 1 True, time_event 2 1 True]] = [0, Suc 0]" by (simp add: upt2)
  have v: "map (\<lambda>e. Cross e \<lparr>Time = 3, Value = [3]\<rparr>) [time_event 1 1 True, time_event 2 1 True] = [2, 1]"
    by (simp add: Cross_time_event)
  have r: "reverse_loop (sort_actions [\<lparr>ra_index = 0, ra_point = \<lparr>Time = 3 / 2, Value = [3 / 2]\<rparr>\<rparr>,
                 \<lparr>ra_index = Suc 0, ra_point = \<lparr>Time = 3 / 2, Value = [3 / 2]\<rparr>\<rparr>]) = Inl IndexOutOfRange"
    by (rule reverse_loop_panics) (simp add: sort_actions_def)
  show ?thesis
    unfolding StepUntil_def back3 st v
    apply (subst StepUntil_loop.simps)
    apply (simp add: n l detect_back r del: detect.simps)
    done
qed

lemma FindPoint_loop_no_result:
  assumes "FindPoint_loop e i p1 p2 d mn mx = Some y"
  shows "\<not> (e = time_event 1 (1 / 2) go \<and> i = LinearInterpolator
            \<and> p1 = \<lparr>Time = 4, Value = [4]\<rparr> \<and> p2 = \<lparr>Time = 0, Value = [0]\<rparr> \<and> d
            \<and> 2 \<le> Time mn \<and> Time mn < 4 \<and> Time mx = 4)"
  apply (rule FindPoint_loop.raw_induct
      [where P = "\<lambda>e i p1 p2 d mn mx y. \<not> (e = time_event 1 (1 / 2) go \<and> i = LinearInterpolator
            \<and> p1 = \<lparr>Time = 4, Value = [4]\<rparr> \<and> p2 = \<lparr>Time = 0, Value = [0]\<rparr> \<and> d
            \<and> 2 \<le> Time mn \<and> Time mn < 4 \<and> Time mx = 4)", OF _ assms])
  subgoal premises prems for f e i p1 p2 d mn mx y
  proof
    assume a: "e = time_event 1 (1 / 2) go \<and> i = LinearInterpolator
            \<and> p1 = \<lparr>Time = 4, Value = [4]\<rparr> \<and> p2 = \<lparr>Time = 0, Value = [0]\<rparr> \<and> d
            \<and> 2 \<le> Time mn \<and> Time mn < 4 \<and> Time mx = 4"
    define t where "t = (Time mn + 4) / 2"
    from a have t: "3 \<le> t" "t < 4" by (simp_all add: t_def)
    from prems(2) a t have "f e i p1 p2 d \<lparr>Time = t, Value = [t]\<rparr> mx = Some y"
      by (simp add: Linear_FindValue_line Let_def time_event_def t_def [symmetric])
    with prems(1) [of e i p1 p2 d "\<lparr>Time = t, Value = [t]\<rparr>" mx y] a t show False by simp
  qed
  done

lemma FindPoint_back_diverges:
  "FindPoint (time_event 1 (1 / 2) go) LinearInterpolator \<lparr>Time = 4, Value = [4]\<rparr> \<lparr>Time = 0, Value = [0]\<rparr> = None"
proof -
  have "FindPoint_loop (time_event 1 (1 / 2) go) LinearInterpolator \<lparr>Time = 4, Value = [4]\<rparr> \<lparr>Time = 0, Value = [0]\<rparr> True
      \<lparr>Time = 0, Value = [0]\<rparr> \<lparr>Time = 4, Value = [4]\<rparr>
    = FindPoint_loop (time_event 1 (1 / 2) go) LinearInterpolator \<lparr>Time = 4, Value = [4]\<rparr> \<lparr>Time = 0, Value = [0]\<rparr> True
      \<lparr>Time = 2, Value = [2]\<rparr> \<lparr>Time = 4, Value = [4]\<rparr>"
    by (subst FindPoint_loop.simps) (simp add: Linear_FindValue_line Let_def time_event_def)
  moreover have "FindPoint_loop (time_event 1 (1 / 2) go) LinearInterpolator \<lparr>Time = 4, Value = [4]\<rparr> \<lparr>Time = 0, Value = [0]\<rparr> True
      \<lparr>Time = 2, Value = [2]\<rparr> \<lparr>Time = 4, Value = [4]\<rparr> = None"
    using FindPoint_loop_no_result [of "time_event 1 (1 / 2) go" LinearInterpolator "\<lparr>Time = 4, Value = [4]\<rparr>" "\<lparr>Time = 0, Value = [0]\<rparr>" True
      "\<lparr>Time = 2, Value = [2]\<rparr>" "\<lparr>Time = 4, Value = [4]\<rparr>" _ go]
    by (cases "FindPoint_loop (time_event 1 (1 / 2) go) LinearInterpolator \<lparr>Time = 4, Value = [4]\<rparr> \<lparr>Time = 0, Value = [0]\<rparr> True
      \<lparr>Time = 2, Value = [2]\<rparr> \<lparr>Time = 4, Value = [4]\<rparr>") auto
  ultimately show ?thesis
    by (simp add: FindPoint_def Cross_time_event)
qed

lemma find_fwd2:
  "FindPoint (time_event 2 (1/2) go) LinearInterpolator \<lparr>Time = 0, Value = [0]\<rparr> \<lparr>Time = 4, Value = [4]\<rparr>
   = Some (Inr \<lparr>Time = 2, Value = [2]\<rparr>)"
  unfolding FindPoint_def
  apply simp
  apply (subst FindPoint_loop.simps)
  apply (simp add: Linear_FindValue_line time_event_def Let_def)
  done

lemma find_fwd1:
  "FindPoint (time_event 1 (1/2) go) LinearInterpolator \<lparr>Time = 0, Value = [0]\<rparr> \<lparr>Time = 4, Value = [4]\<rparr>
   = Some (Inr \<lparr>Time = 1, Value = [1]\<rparr>)"
  unfolding FindPoint_def
  apply simp
  apply (subst FindPoint_loop.simps)
  apply (simp add: Linear_FindValue_line time_event_def Let_def)
  apply (subst FindPoint_loop.simps)
  apply (simp add: Linear_FindValue_line time_event_def Let_def)
  done

lemma detect_fwd:
  "detect [time_event 2 (1/2) False, time_event 1 (1/2) True] LinearInterpolator
     \<lparr>Time = 0, Value = [0]\<rparr> \<lparr>Time = 4, Value = [4]\<rparr> [0, Suc 0] [- 2, - 1] []
   = Some (Inr ([\<lparr>ra_index = 0, ra_point = \<lparr>Time = 2, Value = [2]\<rparr>\<rparr>,
                 \<lparr>ra_index = Suc 0, ra_point = \<lparr>Time = 1, Value = [1]\<rparr>\<rparr>], [2, 3]))"
  by (simp add: idx_def Cross_time_event differentSign_def find_fwd1 find_fwd2)

lemma StepUntil_forward_order:
  "StepUntil (Forward (Euler 4) (unit_from 0)) (Start (unit_from 0)) LinearInterpolator (Some (\<lambda>u p. u))
   [time_event 2 (1/2) False, time_event 1 (1/2) True] [] = Some (Inr ((0, True), euler_at 4 4, [(1, 1), (2, 2)]))"
proof -
  have st: "Start (unit_from 0) = \<lparr>Time = 0, Value = [0]\<rparr>" by (simp add: unit_from_def)
  have n: "Stepper_Next (euler_at 4 0) = Some (Inr (Some \<lparr>Time = 4, Value = [4]\<rparr>, euler_at 4 4))"
    using euler_at_Next [of 4 0] by simp
  have l: "[0..<length [time_event 2 (1/2) False, time_event 1 (1/2) True]] = [0, Suc 0]" by (simp add: upt2)
  have v: "map (\<lambda>e. Cross e \<lparr>Time = 0, Value = [0]\<rparr>) [time_event 2 (1/2) False, time_event 1 (1/2) True] = [- 2, - 1]"
    by (simp add: Cross_time_event)
  have s: "sort_actions [\<lparr>ra_index = 0, ra_point = \<lparr>Time = 2, Value = [2]\<rparr>\<rparr>,
                 \<lparr>ra_index = Suc 0, ra_point = \<lparr>Time = 1, Value = [1]\<rparr>\<rparr>] = 
         [\<lparr>ra_index = Suc 0, ra_point = \<lparr>Time = 1, Value = [1]\<rparr>\<rparr>, \<lparr>ra_index = 0, ra_point = \<lparr>Time = 2, Value = [2]\<rparr>\<rparr>]"
    by (simp add: sort_actions_def)
  have ra: "run_actions [time_event 2 (1/2) False, time_event 1 (1/2) True] [\<lparr>ra_index = Suc 0, ra_point = \<lparr>Time = 1, Value = [1]\<rparr>\<rparr>, \<lparr>ra_index = 0, ra_point = \<lparr>Time = 2, Value = [2]\<rparr>\<rparr>] []
     = Inr (Some 0, [(1, 1), (2, 2)])"
    by (simp add: idx_def time_event_def)
  show ?thesis
    unfolding StepUntil_def fwd4 st v
    apply (subst StepUntil_loop.simps)
    apply (simp add: n l detect_fwd s ra del: detect.simps run_actions.simps)
    done
qed


text \<open>
  C2.  Stepping forward from \<open>0\<close> to \<open>4\<close> with the event of zero \<open>2\<close> listed before the
  event of zero \<open>1\<close>, both are localized and the action for \<open>t = 1\<close> runs before the one
  for \<open>t = 2\<close> (whose veto ends the run), as the log shows.  Stepping backward across two
  events the driver does not deliver the descending order: from \<open>3\<close> to \<open>0\<close>, with both
  events localized, the reversal loop reads \<^verbatim>\<open>actions[size-0]\<close>, one past the end, and
  \<^verbatim>\<open>StepUntil\<close> panics before any action runs; and from \<open>4\<close> to \<open>0\<close> with tolerance
  \<open>1/2\<close> the bisection for the event of zero \<open>1\<close> never returns, because it takes its
  direction from the later point.
\<close>

theorem StepUntil_backward_two_events:
  "StepUntil (Forward (Euler 4) (unit_from 0)) (Start (unit_from 0)) LinearInterpolator
      (Some (\<lambda>u p. u)) [time_event 2 (1 / 2) False, time_event 1 (1 / 2) True] []
     = Some (Inr ((0, True), euler_at 4 4, [(1, 1), (2, 2)]))
   \<and> StepUntil (Backward (Euler 3) (unit_from 3)) (Start (unit_from 3)) LinearInterpolator
      (Some (\<lambda>u p. u)) [time_event 1 1 True, time_event 2 1 True] []
     = Some (Inl IndexOutOfRange)
   \<and> FindPoint (time_event 1 (1 / 2) True) LinearInterpolator
        \<lparr>Time = 4, Value = [4]\<rparr> \<lparr>Time = 0, Value = [0]\<rparr> = None"
  by (simp only: StepUntil_forward_order StepUntil_backward_panics FindPoint_back_diverges
      simp_thms)

end
